theory Spec2Isabelle
  imports Main "HOL-Library.Word" "HOL-Library.Sublist"
begin

section \<open>Data model (models/user.go, models/payment.go)\<close>

text \<open>
  Object identifiers are natural numbers, instants are integers (nanoseconds), Go's
  \<open>int64\<close> is a 64-bit word and a \<open>byte\<close> an 8-bit word. Go strings are byte
  sequences, here \<open>string\<close>.
\<close>

type_synonym objectid = nat
type_synonym time = int
type_synonym int64 = "64 word"
type_synonym byte = "8 word"

text \<open>The six constants of \<open>PaymentStatus\<close>, in the order of the source.\<close>

datatype PaymentStatus =
    PaymentStatusPending
  | PaymentStatusProcessed
  | PaymentStatusCompleted
  | PaymentStatusExpired
  | PaymentStatusFailed
  | PaymentStatusIgnored

text \<open>
  The user document. \<open>payment_code\<close> is tagged \<open>omitempty\<close> and is removed by
  \<open>$unset\<close>: the field of the stored document is optional, and a query on
  \<open>payment_code\<close> matches only documents that carry the field.
\<close>

record User =
  u_ID :: objectid
  u_Email :: string
  u_Password :: string
  u_FullName :: string
  u_DateOfBirth :: time
  u_Platform :: string
  u_Owned :: bool
  u_IsBanned :: bool
  u_SerialNumber :: string
  u_PaymentCode :: "string option"
  u_Role :: string
  u_IsActive :: bool
  u_CreatedAt :: time
  u_UpdatedAt :: time
  u_LastLogin :: "time option"

record PaymentSession =
  s_ID :: objectid
  s_UserID :: objectid
  s_PaymentCode :: string
  s_Amount :: int64
  s_Status :: PaymentStatus
  s_QRImageURL :: string
  s_CreatedAt :: time
  s_ExpiresAt :: time
  s_CompletedAt :: "time option"

text \<open>
  The payment (ledger) record. Its \<open>_id\<close> is left empty by the service and assigned
  by the store on insertion, so it is not a field here.
\<close>

record Payment =
  p_SepayID :: int64
  p_Gateway :: string
  p_TransactionDate :: string
  p_AccountNumber :: string
  p_Code :: "string option"
  p_Content :: string
  p_TransferType :: string
  p_TransferAmount :: int64
  p_Accumulated :: int64
  p_SubAccount :: "string option"
  p_ReferenceCode :: string
  p_Description :: string
  p_ProcessedAt :: "time option"
  p_Status :: PaymentStatus
  p_UserID :: "objectid option"
  p_ProductID :: "objectid option"
  p_CreatedAt :: time
  p_UpdatedAt :: time

record SepayWebhookRequest =
  w_ID :: int64
  w_Gateway :: string
  w_TransactionDate :: string
  w_AccountNumber :: string
  w_Code :: "string option"
  w_Content :: string
  w_TransferType :: string
  w_TransferAmount :: int64
  w_Accumulated :: int64
  w_SubAccount :: "string option"
  w_ReferenceCode :: string
  w_Description :: string

text \<open>\<open>ToPayment\<close>; \<open>now\<close> is the reading of \<open>time.Now()\<close> taken inside it.\<close>

definition ToPayment :: "time \<Rightarrow> SepayWebhookRequest \<Rightarrow> Payment" where
  "ToPayment now s =
     \<lparr> p_SepayID = w_ID s,
       p_Gateway = w_Gateway s,
       p_TransactionDate = w_TransactionDate s,
       p_AccountNumber = w_AccountNumber s,
       p_Code = w_Code s,
       p_Content = w_Content s,
       p_TransferType = w_TransferType s,
       p_TransferAmount = w_TransferAmount s,
       p_Accumulated = w_Accumulated s,
       p_SubAccount = w_SubAccount s,
       p_ReferenceCode = w_ReferenceCode s,
       p_Description = w_Description s,
       p_ProcessedAt = Some now,
       p_Status = PaymentStatusPending,
       p_UserID = None,
       p_ProductID = None,
       p_CreatedAt = now,
       p_UpdatedAt = now \<rparr>"

section \<open>The document store and the environment\<close>

text \<open>
  The three collections the payment service holds. A collection is the list of its
  documents in insertion order: \<open>FindOne\<close> and \<open>UpdateOne\<close> act on the first
  document that matches the filter, \<open>InsertOne\<close> appends.
\<close>

record database =
  users :: "User list"
  payment_sessions :: "PaymentSession list"
  payments :: "Payment list"

definition FindOne :: "('a \<Rightarrow> bool) \<Rightarrow> 'a list \<Rightarrow> 'a option" where
  "FindOne flt docs = find flt docs"

definition CountDocuments :: "('a \<Rightarrow> bool) \<Rightarrow> 'a list \<Rightarrow> nat" where
  "CountDocuments flt docs = length (filter flt docs)"

definition InsertOne :: "'a \<Rightarrow> 'a list \<Rightarrow> 'a list" where
  "InsertOne doc docs = docs @ [doc]"

text \<open>\<open>UpdateOne\<close> returns the collection and \<open>MatchedCount\<close>.\<close>

fun UpdateOne :: "('a \<Rightarrow> bool) \<Rightarrow> ('a \<Rightarrow> 'a) \<Rightarrow> 'a list \<Rightarrow> 'a list \<times> nat" where
  "UpdateOne flt upd [] = ([], 0)"
| "UpdateOne flt upd (d # ds) =
     (if flt d then (upd d # ds, 1)
      else (d # fst (UpdateOne flt upd ds), snd (UpdateOne flt upd ds)))"

text \<open>
  What a call reads from outside the store: \<open>clock n\<close> is the value of the \<open>n\<close>-th
  call of \<open>time.Now()\<close> made during the call (from 0); \<open>fault_at = Some n\<close> says that
  the \<open>n\<close>-th store operation of the call (from 0) returns a driver error other than
  \<open>ErrNoDocuments\<close>, and \<open>None\<close> that no store operation fails (the call returns at
  its first store error, so one index is enough); \<open>rand_reads\<close> lists what the
  successive calls of \<open>rand.Read\<close> deliver; \<open>new_object_id\<close> is the value of
  \<open>primitive.NewObjectID()\<close>.
\<close>

record env =
  clock :: "nat \<Rightarrow> time"
  fault_at :: "nat option"
  rand_reads :: "byte list list"
  new_object_id :: objectid

text \<open>One constructor for each error message of services/payment.go.\<close>

datatype error =
    UserNotFound
  | FailedToFindUser
  | UserBanned
  | AlreadyOwned
  | FailedToCheckUniqueness
  | FailedToCreateSession
  | FailedToUpdateUserCode
  | IncorrectAmount int64
  | CodeNotFound string
  | InvalidCodeFormat string
  | NoUserWithCode string
  | UserIsBanned string
  | FailedToUpdateSession
  | NoPendingSession string
  | FailedToActivateOwnership
  | FailedToSaveIgnored
  | FailedToSaveFailed
  | FailedToSaveProcessed

section \<open>String functions of the Go library\<close>

text \<open>
  \<open>strings.ToUpper\<close>. When every byte of the string is below \<open>utf8.RuneSelf\<close>
  (0x80) Go takes its ASCII path: the letters a to z are mapped to A to Z and every
  other byte is kept. Otherwise it returns \<open>strings.Map(unicode.ToUpper, s)\<close>, which
  decodes the string and maps each rune by Go's Unicode case tables; the result may
  differ from the argument in length. Those tables are not part of the repository:
  that branch is the parameter \<open>unicodeUpper\<close>, and everything proved below holds
  for every function in its place.
\<close>

definition upperChar :: "char \<Rightarrow> char" where
  "upperChar c =
     (case map_of (zip ''abcdefghijklmnopqrstuvwxyz'' ''ABCDEFGHIJKLMNOPQRSTUVWXYZ'') c of
        None \<Rightarrow> c
      | Some u \<Rightarrow> u)"

text \<open>\<open>digit7\<close> is the highest bit of a byte: it is set exactly from 0x80 on.\<close>

definition isASCII :: "string \<Rightarrow> bool" where
  "isASCII s = list_all (\<lambda>c. \<not> digit7 c) s"

definition strings_ToUpper :: "(string \<Rightarrow> string) \<Rightarrow> string \<Rightarrow> string" where
  "strings_ToUpper unicodeUpper s =
     (if isASCII s then map upperChar s else unicodeUpper s)"

text \<open>\<open>strings.Index\<close>: the index of the first occurrence; \<open>None\<close> is Go's \<open>-1\<close>.\<close>

fun strings_Index :: "string \<Rightarrow> string \<Rightarrow> nat option" where
  "strings_Index [] substr = (if substr = [] then Some 0 else None)"
| "strings_Index (c # cs) substr =
     (if prefix substr (c # cs) then Some 0
      else map_option Suc (strings_Index cs substr))"

text \<open>The slice expression \<open>s[lo:hi]\<close>, for \<open>lo \<le> hi \<le> len(s)\<close>.\<close>

definition slice :: "string \<Rightarrow> nat \<Rightarrow> nat \<Rightarrow> string" where
  "slice s lo hi = take (hi - lo) (drop lo s)"

section \<open>Code generation (services/payment.go, generatePaymentCode)\<close>

definition charset :: string where
  "charset = ''ABCDEFGHIJKLMNOPQRSTUVWXYZ0123456789''"

text \<open>\<open>rand.Read(b)\<close> overwrites \<open>b\<close> from its front with the bytes read.\<close>

definition rand_Read :: "byte list \<Rightarrow> byte list \<Rightarrow> byte list" where
  "rand_Read r b = take (length b) (r @ drop (length r) b)"

definition generatePaymentCode :: "byte list \<Rightarrow> string" where
  "generatePaymentCode r =
     map (\<lambda>x. charset ! unat (x mod of_nat (length charset))) (rand_Read r (replicate 8 0))"

section \<open>Session creation (services/payment.go, InitiatePayment)\<close>

text \<open>
  The generate-and-check loop. Each round consumes one read of the random source and
  one \<open>CountDocuments\<close>, the store operation number \<open>n\<close> of the call. The loop has no
  bound in the source: \<open>None\<close> says that every read supplied collided, so the loop did
  not end on them. On success the code comes with the number of the next store
  operation.
\<close>

fun uniquePaymentCode ::
  "nat option \<Rightarrow> nat \<Rightarrow> byte list list \<Rightarrow> PaymentSession list \<Rightarrow> (error + string \<times> nat) option" where
  "uniquePaymentCode fault n [] sessions = None"
| "uniquePaymentCode fault n (r # rs) sessions =
     (let paymentCode = generatePaymentCode r in
      if fault = Some n then Some (Inl FailedToCheckUniqueness)
      else if CountDocuments (\<lambda>s. s_PaymentCode s = paymentCode) sessions = 0
        then Some (Inr (paymentCode, Suc n))
      else uniquePaymentCode fault (Suc n) rs sessions)"

definition Minute :: time where
  "Minute = 60 * 1000000000"

text \<open>
  The QR image URL. \<open>url.QueryEscape\<close> leaves letters and digits as they are, which
  is all a generated code contains, and writes the spaces of the account name as \<open>+\<close>.
\<close>

definition qrImageURL :: "string \<Rightarrow> string" where
  "qrImageURL paymentCode =
     ''https://img.vietqr.io/image/mbbank-28368866886-compact.jpg?amount=5000000&addInfo=''
       @ ''ATMT'' @ paymentCode @ ''&accountName='' @ ''NGUYEN+HONG+QUANG''"

definition InitiatePayment ::
  "env \<Rightarrow> database \<Rightarrow> objectid \<Rightarrow> ((error + PaymentSession) \<times> database) option" where
  "InitiatePayment e db userID =
     (if fault_at e = Some 0 then Some (Inl FailedToFindUser, db)
      else case FindOne (\<lambda>u. u_ID u = userID) (users db) of
        None \<Rightarrow> Some (Inl UserNotFound, db)
      | Some user \<Rightarrow>
          if u_IsBanned user then Some (Inl UserBanned, db)
          else if u_Owned user then Some (Inl AlreadyOwned, db)
          else (case uniquePaymentCode (fault_at e) 1 (rand_reads e) (payment_sessions db) of
            None \<Rightarrow> None
          | Some (Inl err) \<Rightarrow> Some (Inl err, db)
          | Some (Inr (paymentCode, n)) \<Rightarrow>
              let now = clock e 0;
                  expiresAt = now + 15 * Minute;
                  amount = 5000000;
                  paymentSession =
                    \<lparr> s_ID = new_object_id e,
                      s_UserID = userID,
                      s_PaymentCode = paymentCode,
                      s_Amount = amount,
                      s_Status = PaymentStatusPending,
                      s_QRImageURL = qrImageURL paymentCode,
                      s_CreatedAt = now,
                      s_ExpiresAt = expiresAt,
                      s_CompletedAt = None \<rparr>
              in if fault_at e = Some n then Some (Inl FailedToCreateSession, db)
                 else
                   let db1 = db\<lparr>payment_sessions :=
                               InsertOne paymentSession (payment_sessions db)\<rparr>
                   in if fault_at e = Some (Suc n)
                      then Some (Inl FailedToUpdateUserCode, db1)
                      else Some (Inr paymentSession,
                        db1\<lparr>users := fst (UpdateOne (\<lambda>u. u_ID u = userID)
                          (\<lambda>u. u\<lparr>u_PaymentCode := Some paymentCode, u_UpdatedAt := now\<rparr>)
                          (users db1))\<rparr>)))"

section \<open>Webhook reconciliation (services/payment.go, ProcessWebhookPayment)\<close>

text \<open>
  The block every classification branch ends with: \<open>InsertOne\<close> of the payment
  record as store operation \<open>n\<close>; on a store error the call returns no payment and
  the save error \<open>failure\<close>, otherwise the payment and the branch's own \<open>outcome\<close>.
\<close>

definition savePayment ::
  "env \<Rightarrow> nat \<Rightarrow> database \<Rightarrow> Payment \<Rightarrow> error \<Rightarrow> error option
     \<Rightarrow> (Payment option \<times> error option) \<times> database" where
  "savePayment e n db payment failure outcome =
     (if fault_at e = Some n then ((None, Some failure), db)
      else ((Some payment, outcome), db\<lparr>payments := InsertOne payment (payments db)\<rparr>))"

text \<open>
  Lines 143 to 177: the marker search and the extraction of the code, on the
  upper-cased content; the length test and the slice are on the upper-cased content
  too. \<open>Inl\<close> tells which of the two checks failed.
\<close>

definition extractPaymentCode :: "(string \<Rightarrow> string) \<Rightarrow> string \<Rightarrow> error + string" where
  "extractPaymentCode unicodeUpper payment_Content =
     (let content = strings_ToUpper unicodeUpper payment_Content in
      case strings_Index content ''ATMT'' of
        None \<Rightarrow> Inl (CodeNotFound payment_Content)
      | Some atMTIndex \<Rightarrow>
          if length content < atMTIndex + 12 then Inl (InvalidCodeFormat payment_Content)
          else Inr (slice content (atMTIndex + 4) (atMTIndex + 12)))"

text \<open>
  Lines 179 to 280: the lookup of the user by pending code, the ban check, the
  conditional update of the session, the grant and the ledger record. The filter and
  the two update documents come first, under the names the source gives them (the
  session's are \<open>filter\<close> and \<open>update\<close> there).
\<close>

definition sessionFilter :: "string \<Rightarrow> PaymentSession \<Rightarrow> bool" where
  "sessionFilter paymentCode s =
     (s_PaymentCode s = paymentCode \<and> s_Status s = PaymentStatusPending)"

definition sessionUpdate :: "time \<Rightarrow> PaymentSession \<Rightarrow> PaymentSession" where
  "sessionUpdate now s = s\<lparr>s_Status := PaymentStatusCompleted, s_CompletedAt := Some now\<rparr>"

definition userUpdate :: "time \<Rightarrow> User \<Rightarrow> User" where
  "userUpdate now u = u\<lparr>u_Owned := True, u_UpdatedAt := now, u_PaymentCode := None\<rparr>"

definition settlePayment ::
  "env \<Rightarrow> database \<Rightarrow> Payment \<Rightarrow> string \<Rightarrow> (Payment option \<times> error option) \<times> database" where
  "settlePayment e db payment paymentCode =
     (if fault_at e = Some 0 then ((None, Some FailedToFindUser), db)
      else case FindOne (\<lambda>u. u_PaymentCode u = Some paymentCode) (users db) of
        None \<Rightarrow>
          savePayment e 1 db
            (payment\<lparr>p_Status := PaymentStatusFailed, p_ProcessedAt := Some (clock e 1)\<rparr>)
            FailedToSaveFailed (Some (NoUserWithCode paymentCode))
      | Some user \<Rightarrow>
          if u_IsBanned user then
            savePayment e 1 db
              (payment\<lparr>p_Status := PaymentStatusFailed, p_ProcessedAt := Some (clock e 1)\<rparr>)
              FailedToSaveFailed (Some (UserIsBanned (u_Email user)))
          else
            let now = clock e 1 in
            if fault_at e = Some 1 then ((None, Some FailedToUpdateSession), db)
            else
              let result = UpdateOne (sessionFilter paymentCode) (sessionUpdate now)
                             (payment_sessions db);
                  db1 = db\<lparr>payment_sessions := fst result\<rparr>
              in if snd result = 0 then
                   savePayment e 2 db1
                     (payment\<lparr>p_Status := PaymentStatusFailed, p_ProcessedAt := Some now\<rparr>)
                     FailedToSaveFailed (Some (NoPendingSession paymentCode))
                 else if fault_at e = Some 2 then ((None, Some FailedToActivateOwnership), db1)
                 else
                   let db2 = db1\<lparr>users := fst (UpdateOne (\<lambda>u. u_ID u = u_ID user)
                                               (userUpdate now) (users db1))\<rparr>
                   in savePayment e 3 db2
                        (payment\<lparr>p_Status := PaymentStatusProcessed,
                                 p_UserID := Some (u_ID user),
                                 p_ProcessedAt := Some now\<rparr>)
                        FailedToSaveProcessed None)"

definition ProcessWebhookPayment ::
  "(string \<Rightarrow> string) \<Rightarrow> env \<Rightarrow> database \<Rightarrow> SepayWebhookRequest
     \<Rightarrow> (Payment option \<times> error option) \<times> database" where
  "ProcessWebhookPayment unicodeUpper e db webhook =
     (let payment = ToPayment (clock e 0) webhook in
      if p_TransferAmount payment \<noteq> 5000000 then
        savePayment e 0 db
          (payment\<lparr>p_Status := PaymentStatusIgnored, p_ProcessedAt := Some (clock e 1)\<rparr>)
          FailedToSaveIgnored (Some (IncorrectAmount (p_TransferAmount payment)))
      else case extractPaymentCode unicodeUpper (p_Content payment) of
        Inl err \<Rightarrow>
          savePayment e 0 db
            (payment\<lparr>p_Status := PaymentStatusIgnored, p_ProcessedAt := Some (clock e 1)\<rparr>)
            FailedToSaveIgnored (Some err)
      | Inr paymentCode \<Rightarrow> settlePayment e db payment paymentCode)"

section \<open>Sequential histories\<close>

text \<open>
  The two operations that write the session collection, as requests served one after
  the other. A request whose code loop does not end leaves no next state.
\<close>

datatype request =
    Initiate env objectid
  | Webhook env SepayWebhookRequest

fun step :: "(string \<Rightarrow> string) \<Rightarrow> database \<Rightarrow> request \<Rightarrow> database option" where
  "step unicodeUpper db (Initiate e userID) = map_option snd (InitiatePayment e db userID)"
| "step unicodeUpper db (Webhook e webhook) =
     Some (snd (ProcessWebhookPayment unicodeUpper e db webhook))"

fun run :: "(string \<Rightarrow> string) \<Rightarrow> database \<Rightarrow> request list \<Rightarrow> database option" where
  "run unicodeUpper db [] = Some db"
| "run unicodeUpper db (r # rs) =
     (case step unicodeUpper db r of None \<Rightarrow> None | Some db' \<Rightarrow> run unicodeUpper db' rs)"

text \<open>
  A call observes a session match when its conditional update reports
  \<open>MatchedCount\<close> 1. That update is the call's only write to the session collection
  and it changes the document it matches (from Pending to Completed), so the call
  observes a match exactly when it leaves the collection changed.
\<close>

definition sessionMatched ::
  "(string \<Rightarrow> string) \<Rightarrow> env \<Rightarrow> database \<Rightarrow> SepayWebhookRequest \<Rightarrow> bool" where
  "sessionMatched unicodeUpper e db webhook =
     (payment_sessions (snd (ProcessWebhookPayment unicodeUpper e db webhook))
        \<noteq> payment_sessions db)"

text \<open>The calls of a sequence of webhook deliveries that observe a session match.\<close>

fun matchedCalls ::
  "(string \<Rightarrow> string) \<Rightarrow> database \<Rightarrow> (env \<times> SepayWebhookRequest) list
     \<Rightarrow> (env \<times> SepayWebhookRequest) list" where
  "matchedCalls unicodeUpper db [] = []"
| "matchedCalls unicodeUpper db (c # cs) =
     (if sessionMatched unicodeUpper (fst c) db (snd c) then [c] else [])
       @ matchedCalls unicodeUpper
           (snd (ProcessWebhookPayment unicodeUpper (fst c) db (snd c))) cs"

text \<open>A payment record with its content blanked, to compare records up to the content.\<close>

definition blankContent :: "Payment \<Rightarrow> Payment" where
  "blankContent p = p\<lparr>p_Content := []\<rparr>"

section \<open>The scenario of the specification\<close>

text \<open>
  A registered user, the environment of a first session creation that draws the code
  AB12CD34, the session it creates, and the webhook that pays it. Every string of the
  scenario is ASCII, so the Unicode branch of \<open>strings.ToUpper\<close> is never taken
  there; the identity stands in its place.
\<close>

definition exUpper :: "string \<Rightarrow> string" where
  "exUpper s = s"

definition exUser :: User where
  "exUser = \<lparr> u_ID = 1, u_Email = ''u@example.com'', u_Password = ''$2a$10$hash'',
     u_FullName = ''U'', u_DateOfBirth = 0, u_Platform = ''windows'',
     u_Owned = False, u_IsBanned = False, u_SerialNumber = ''SN-1'',
     u_PaymentCode = None, u_Role = ''user'', u_IsActive = True,
     u_CreatedAt = 0, u_UpdatedAt = 0, u_LastLogin = None \<rparr>"

definition exEnv :: env where
  "exEnv = \<lparr> clock = (\<lambda>n. 1000 + int n), fault_at = None,
     rand_reads = [[0, 1, 27, 28, 2, 3, 29, 30]], new_object_id = 10 \<rparr>"

definition exSession :: PaymentSession where
  "exSession = \<lparr> s_ID = 10, s_UserID = 1, s_PaymentCode = ''AB12CD34'',
     s_Amount = 5000000, s_Status = PaymentStatusPending,
     s_QRImageURL = qrImageURL ''AB12CD34'', s_CreatedAt = 1000,
     s_ExpiresAt = 1000 + 15 * Minute, s_CompletedAt = None \<rparr>"

definition exDb0 :: database where
  "exDb0 = \<lparr> users = [exUser], payment_sessions = [], payments = [] \<rparr>"

definition exDb1 :: database where
  "exDb1 = \<lparr> users = [exUser\<lparr>u_PaymentCode := Some ''AB12CD34'', u_UpdatedAt := 1000\<rparr>],
     payment_sessions = [exSession], payments = [] \<rparr>"

definition exWebhook :: SepayWebhookRequest where
  "exWebhook = \<lparr> w_ID = 42, w_Gateway = ''MBBank'', w_TransactionDate = ''2025-01-01 10:00:00'',
     w_AccountNumber = ''28368866886'', w_Code = None,
     w_Content = ''ATMTAB12CD34 chuyen tien mua san pham'', w_TransferType = ''in'',
     w_TransferAmount = 5000000, w_Accumulated = 5000000, w_SubAccount = None,
     w_ReferenceCode = ''FT25001'', w_Description = ''BankAPINotify'' \<rparr>"

text \<open>
  Further environments and states of the scenario: the payment notification arrives
  at time 2000, or long after the session's window has closed; a second creation for
  the same user first draws the code already taken, then ZZ99ZZ99; a state in which
  the user has been banned after the first creation; webhooks with a wrong amount,
  without the marker, and with too short a code; a store in which two other sessions
  share a code, with the webhook that pays its third session; a store whose user and
  session carry a code in lower case, with a webhook written in lower case; the
  store once the session is Completed; and a history of three requests.
\<close>

definition exPayEnv :: env where
  "exPayEnv = \<lparr> clock = (\<lambda>n. 2000 + int n), fault_at = None,
     rand_reads = [], new_object_id = 0 \<rparr>"

definition exLateEnv :: env where
  "exLateEnv = \<lparr> clock = (\<lambda>n. 2000000000000 + int n), fault_at = None,
     rand_reads = [], new_object_id = 0 \<rparr>"

definition exEnv2 :: env where
  "exEnv2 = \<lparr> clock = (\<lambda>n. 1500 + int n), fault_at = None,
     rand_reads = [[0, 1, 27, 28, 2, 3, 29, 30], [25, 25, 35, 35, 25, 25, 35, 35]],
     new_object_id = 11 \<rparr>"

definition exSession2 :: PaymentSession where
  "exSession2 = \<lparr> s_ID = 11, s_UserID = 1, s_PaymentCode = ''ZZ99ZZ99'',
     s_Amount = 5000000, s_Status = PaymentStatusPending,
     s_QRImageURL = qrImageURL ''ZZ99ZZ99'', s_CreatedAt = 1500,
     s_ExpiresAt = 1500 + 15 * Minute, s_CompletedAt = None \<rparr>"

definition exDb2 :: database where
  "exDb2 = \<lparr> users = [exUser\<lparr>u_PaymentCode := Some ''ZZ99ZZ99'', u_UpdatedAt := 1500\<rparr>],
     payment_sessions = [exSession, exSession2], payments = [] \<rparr>"

definition exBannedDb :: database where
  "exBannedDb = \<lparr> users = [exUser\<lparr>u_PaymentCode := Some ''AB12CD34'', u_IsBanned := True\<rparr>],
     payment_sessions = [exSession], payments = [] \<rparr>"

definition exWrongAmount :: SepayWebhookRequest where
  "exWrongAmount = exWebhook\<lparr>w_TransferAmount := 3000000, w_Content := ''ATMTAB12CD34''\<rparr>"

definition exNoMarker :: SepayWebhookRequest where
  "exNoMarker = exWebhook\<lparr>w_Content := ''no marker here''\<rparr>"

definition exShortCode :: SepayWebhookRequest where
  "exShortCode = exWebhook\<lparr>w_Content := ''pay atmtAB12''\<rparr>"

definition exDb3 :: database where
  "exDb3 = \<lparr> users = [exUser\<lparr>u_PaymentCode := Some ''ZZ99ZZ99'', u_UpdatedAt := 1500\<rparr>],
     payment_sessions = [exSession, exSession\<lparr>s_ID := 12\<rparr>, exSession2], payments = [] \<rparr>"

definition exWebhook2 :: SepayWebhookRequest where
  "exWebhook2 = exWebhook\<lparr>w_Content := ''ck ATMTZZ99ZZ99 mua san pham''\<rparr>"

definition exLowerDb :: database where
  "exLowerDb = \<lparr> users = [exUser\<lparr>u_PaymentCode := Some ''ab12cd34''\<rparr>],
     payment_sessions = [exSession\<lparr>s_PaymentCode := ''ab12cd34''\<rparr>], payments = [] \<rparr>"

definition exLowerWebhook :: SepayWebhookRequest where
  "exLowerWebhook = exWebhook\<lparr>w_Content := ''atmtab12cd34''\<rparr>"

definition exCompletedDb :: database where
  "exCompletedDb = exDb1\<lparr>payment_sessions := [exSession\<lparr>s_Status := PaymentStatusCompleted\<rparr>]\<rparr>"

definition exHistory :: "request list" where
  "exHistory = [Initiate exEnv 1, Initiate exEnv2 1, Webhook exPayEnv exWebhook]"

section \<open>Properties of the store operations\<close>

lemma UpdateOne_snd:
  "snd (UpdateOne flt upd ds) = (if \<exists>d\<in>set ds. flt d then 1 else 0)"
  by (induction ds) auto

lemma UpdateOne_length [simp]:
  "length (fst (UpdateOne flt upd ds)) = length ds"
  by (induction ds) auto

lemma UpdateOne_no_match:
  "\<forall>d\<in>set ds. \<not> flt d \<Longrightarrow> UpdateOne flt upd ds = (ds, 0)"
  by (induction ds) auto

lemma UpdateOne_map:
  "(\<And>d. g (upd d) = g d) \<Longrightarrow> map g (fst (UpdateOne flt upd ds)) = map g ds"
  by (induction ds) auto

lemma UpdateOne_first:
  "i < length ds \<Longrightarrow> flt (ds ! i) \<Longrightarrow> \<forall>j<i. \<not> flt (ds ! j)
     \<Longrightarrow> UpdateOne flt upd ds = (ds[i := upd (ds ! i)], 1)"
proof (induction ds arbitrary: i)
  case Nil
  then show ?case by simp
next
  case (Cons d ds)
  show ?case
  proof (cases i)
    case 0
    with Cons.prems show ?thesis by simp
  next
    case (Suc k)
    from Cons.prems(3) Suc have nd: "\<not> flt d" by auto
    from Cons.prems Suc have "\<forall>j<k. \<not> flt (ds ! j)" by auto
    with Cons.IH [of k] Cons.prems Suc have "UpdateOne flt upd ds = (ds[k := upd (ds ! k)], 1)"
      by simp
    with nd Suc show ?thesis by simp
  qed
qed

lemma UpdateOne_steps:
  "list_all2 (\<lambda>d d'. d' = d \<or> (flt d \<and> d' = upd d)) ds (fst (UpdateOne flt upd ds))"
  by (induction ds) (auto simp: list_all2_same)

lemma UpdateOne_changes:
  "(\<And>d. flt d \<Longrightarrow> upd d \<noteq> d) \<Longrightarrow>
     (fst (UpdateOne flt upd ds) \<noteq> ds) = (snd (UpdateOne flt upd ds) = 1)"
  by (induction ds) auto

lemma find_UpdateOne_same:
  "find flt ds = Some d \<Longrightarrow> flt (upd d) \<Longrightarrow> find flt (fst (UpdateOne flt upd ds)) = Some (upd d)"
  by (induction ds) (auto split: if_splits)

lemma find_by_key_exists:
  "d \<in> set ds \<Longrightarrow> \<exists>d0. find (\<lambda>x. key x = key d) ds = Some d0"
  by (cases "find (\<lambda>x. key x = key d) ds") (auto simp: find_None_iff)

lemma list_all2_setD2:
  "list_all2 P xs ys \<Longrightarrow> y \<in> set ys \<Longrightarrow> \<exists>x\<in>set xs. P x y"
  by (induction rule: list_all2_induct) auto

lemma CountDocuments_zero:
  "(CountDocuments (\<lambda>s. s_PaymentCode s = c) ss = 0) = (c \<notin> set (map s_PaymentCode ss))"
  by (auto simp: CountDocuments_def filter_empty_conv)

section \<open>Properties of the string functions\<close>

text \<open>
  \<open>strings_Index\<close> returns the first position at which the substring occurs, and
  \<open>None\<close> exactly when it occurs nowhere.
\<close>

lemma strings_Index_Some:
  "strings_Index s substr = Some i \<Longrightarrow>
     i \<le> length s \<and> prefix substr (drop i s) \<and> (\<forall>j<i. \<not> prefix substr (drop j s))"
proof (induction s arbitrary: i)
  case Nil
  then show ?case by (simp split: if_splits)
next
  case (Cons c cs)
  show ?case
  proof (cases "prefix substr (c # cs)")
    case True
    with Cons.prems show ?thesis by simp
  next
    case False
    with Cons.prems obtain k where k: "strings_Index cs substr = Some k" "i = Suc k"
      by auto
    from Cons.IH [OF k(1)] have ih: "k \<le> length cs" "prefix substr (drop k cs)"
      "\<forall>j<k. \<not> prefix substr (drop j cs)" by blast+
    have "\<not> prefix substr (drop j (c # cs))" if "j < i" for j
    proof (cases j)
      case 0
      with False show ?thesis by simp
    next
      case (Suc m)
      with that k(2) have "m < k" by simp
      with ih(3) Suc show ?thesis by simp
    qed
    with ih k(2) show ?thesis by simp
  qed
qed

lemma strings_Index_None:
  "strings_Index s substr = None \<Longrightarrow> \<not> prefix substr (drop j s)"
proof (induction s arbitrary: j)
  case Nil
  then show ?case by (simp split: if_splits)
next
  case (Cons c cs)
  then show ?case by (cases j) (auto split: if_splits)
qed

lemma strings_Index_first:
  "i \<le> length s \<Longrightarrow> prefix substr (drop i s) \<Longrightarrow> \<forall>j<i. \<not> prefix substr (drop j s)
     \<Longrightarrow> strings_Index s substr = Some i"
proof (cases "strings_Index s substr")
  case None
  assume "prefix substr (drop i s)"
  with strings_Index_None [OF None, of i] show ?thesis by simp
next
  case (Some k)
  assume a: "i \<le> length s" "prefix substr (drop i s)" "\<forall>j<i. \<not> prefix substr (drop j s)"
  from strings_Index_Some [OF Some] have b: "prefix substr (drop k s)"
    "\<forall>j<k. \<not> prefix substr (drop j s)" by auto
  from a b have "k = i" by (meson linorder_neqE_nat)
  with Some show ?thesis by simp
qed

lemma upperChar_idem: "upperChar (upperChar c) = upperChar c"
  unfolding upperChar_def by (simp split: if_splits)

lemma strings_ToUpper_ascii:
  "isASCII s \<Longrightarrow> strings_ToUpper up s = map upperChar s"
  by (simp add: strings_ToUpper_def)

lemma charset_ascii: "\<forall>c\<in>set charset. \<not> digit7 c"
  by (simp add: charset_def)

lemma upperChar_charset_all: "\<forall>c\<in>set charset. upperChar c = c"
  by (simp add: charset_def upperChar_def)

section \<open>Properties of the generated codes\<close>

lemma rand_Read_length: "length (rand_Read r b) = length b"
  by (simp add: rand_Read_def)

lemma generatePaymentCode_length: "length (generatePaymentCode r) = 8"
  by (simp add: generatePaymentCode_def rand_Read_length)

lemma charset_index: "unat ((x::byte) mod of_nat (length charset)) < length charset"
proof -
  have "x mod 36 < 36" by (rule word_mod_less_divisor) simp
  then have "unat (x mod 36) < unat (36 :: byte)" by (simp only: word_less_nat_alt)
  then show ?thesis by (simp add: charset_def)
qed

lemma generatePaymentCode_charset: "set (generatePaymentCode r) \<subseteq> set charset"
  using charset_index by (auto simp: generatePaymentCode_def)

lemma generatePaymentCode_ascii: "isASCII (generatePaymentCode r)"
  unfolding isASCII_def list_all_iff
  using generatePaymentCode_charset [of r] charset_ascii by blast

lemma generatePaymentCode_upper:
  "strings_ToUpper up (generatePaymentCode r) = generatePaymentCode r"
proof -
  have "map upperChar (generatePaymentCode r) = generatePaymentCode r"
    by (rule map_idI) (use generatePaymentCode_charset [of r] upperChar_charset_all in blast)
  with strings_ToUpper_ascii [OF generatePaymentCode_ascii, of up r] show ?thesis by simp
qed

lemma uniquePaymentCode_error:
  "uniquePaymentCode fault n rs ss = Some (Inl err) \<Longrightarrow> err = FailedToCheckUniqueness"
  by (induction rs arbitrary: n) (auto simp: Let_def split: if_splits)

lemma uniquePaymentCode_fresh:
  "uniquePaymentCode fault n rs ss = Some (Inr (c, m)) \<Longrightarrow>
     c \<notin> set (map s_PaymentCode ss) \<and> c \<in> generatePaymentCode ` set rs \<and> n < m"
proof (induction rs arbitrary: n)
  case Nil
  then show ?case by simp
next
  case (Cons r rs)
  show ?case
  proof (cases "generatePaymentCode r \<in> set (map s_PaymentCode ss)")
    case True
    with Cons.prems have "uniquePaymentCode fault (Suc n) rs ss = Some (Inr (c, m))"
      by (simp add: Let_def CountDocuments_zero split: if_splits)
    from Cons.IH [OF this] show ?thesis by auto
  next
    case False
    with Cons.prems show ?thesis
      by (simp add: Let_def CountDocuments_zero split: if_splits)
  qed
qed

lemma uniquePaymentCode_returns:
  "\<exists>r\<in>set rs. generatePaymentCode r \<notin> set (map s_PaymentCode ss) \<Longrightarrow>
     \<exists>c m. uniquePaymentCode None n rs ss = Some (Inr (c, m))"
proof (induction rs arbitrary: n)
  case Nil
  then show ?case by simp
next
  case (Cons r rs)
  show ?case
  proof (cases "generatePaymentCode r \<in> set (map s_PaymentCode ss)")
    case True
    with Cons.prems have "\<exists>r\<in>set rs. generatePaymentCode r \<notin> set (map s_PaymentCode ss)"
      by auto
    from Cons.IH [OF this, of "Suc n"] True show ?thesis
      by (simp add: Let_def CountDocuments_zero)
  next
    case False
    then show ?thesis by (simp add: Let_def CountDocuments_zero)
  qed
qed

section \<open>Outcomes of session creation\<close>

lemma InitiatePayment_created:
  assumes "fault_at e = None"
    and "FindOne (\<lambda>u. u_ID u = userID) (users db) = Some user"
    and "\<not> u_IsBanned user" and "\<not> u_Owned user"
    and "uniquePaymentCode None 1 (rand_reads e) (payment_sessions db) = Some (Inr (c, m))"
  shows "InitiatePayment e db userID =
     Some (Inr \<lparr> s_ID = new_object_id e, s_UserID = userID, s_PaymentCode = c,
                 s_Amount = 5000000, s_Status = PaymentStatusPending,
                 s_QRImageURL = qrImageURL c, s_CreatedAt = clock e 0,
                 s_ExpiresAt = clock e 0 + 15 * Minute, s_CompletedAt = None \<rparr>,
           db\<lparr>payment_sessions := payment_sessions db @
                [\<lparr> s_ID = new_object_id e, s_UserID = userID, s_PaymentCode = c,
                   s_Amount = 5000000, s_Status = PaymentStatusPending,
                   s_QRImageURL = qrImageURL c, s_CreatedAt = clock e 0,
                   s_ExpiresAt = clock e 0 + 15 * Minute, s_CompletedAt = None \<rparr>],
              users := fst (UpdateOne (\<lambda>u. u_ID u = userID)
                (\<lambda>u. u\<lparr>u_PaymentCode := Some c, u_UpdatedAt := clock e 0\<rparr>) (users db))\<rparr>)"
  using assms by (simp add: InitiatePayment_def Let_def InsertOne_def)

lemma InitiatePayment_validated:
  assumes "FindOne (\<lambda>u. u_ID u = userID) (users db) = Some user"
    and "\<not> u_IsBanned user" and "\<not> u_Owned user"
  shows "InitiatePayment e db userID \<noteq> Some (Inl UserNotFound, db')"
    and "InitiatePayment e db userID \<noteq> Some (Inl UserBanned, db')"
    and "InitiatePayment e db userID \<noteq> Some (Inl AlreadyOwned, db')"
  using assms uniquePaymentCode_error [of "fault_at e" 1 "rand_reads e" "payment_sessions db"]
  by (auto simp: InitiatePayment_def Let_def split: option.splits sum.splits prod.splits)

lemma InitiatePayment_sessions:
  assumes "InitiatePayment e db userID = Some (r, db')"
  shows "payment_sessions db' = payment_sessions db
       \<or> (\<exists>s. payment_sessions db' = payment_sessions db @ [s]
              \<and> s_Status s = PaymentStatusPending
              \<and> s_PaymentCode s \<notin> set (map s_PaymentCode (payment_sessions db))
              \<and> s_PaymentCode s \<in> generatePaymentCode ` set (rand_reads e))"
proof (cases "uniquePaymentCode (fault_at e) 1 (rand_reads e) (payment_sessions db)")
  case None
  with assms show ?thesis
    by (auto simp: InitiatePayment_def split: if_splits option.splits)
next
  case (Some res)
  show ?thesis
  proof (cases res)
    case (Inl err)
    with Some assms show ?thesis
      by (auto simp: InitiatePayment_def split: if_splits option.splits)
  next
    case (Inr cm)
    obtain c m where cm: "cm = (c, m)" by (cases cm)
    from uniquePaymentCode_fresh Some Inr cm
    have "c \<notin> set (map s_PaymentCode (payment_sessions db))"
      "c \<in> generatePaymentCode ` set (rand_reads e)" by blast+
    with Some Inr cm assms show ?thesis
      by (auto simp: InitiatePayment_def Let_def InsertOne_def split: if_splits option.splits)
  qed
qed

section \<open>Outcomes of webhook reconciliation\<close>

lemma savePayment_ok:
  "fault_at e = None \<Longrightarrow>
     savePayment e n db p failure outcome =
       ((Some p, outcome), db\<lparr>payments := payments db @ [p]\<rparr>)"
  by (simp add: savePayment_def InsertOne_def)

text \<open>
  The extraction of the code, by the position of the marker in the upper-cased content.
\<close>

lemma extractPaymentCode_absent:
  "strings_Index (strings_ToUpper up c) ''ATMT'' = None \<Longrightarrow>
     extractPaymentCode up c = Inl (CodeNotFound c)"
  by (simp add: extractPaymentCode_def)

lemma extractPaymentCode_short:
  "strings_Index (strings_ToUpper up c) ''ATMT'' = Some i \<Longrightarrow>
   length (strings_ToUpper up c) < i + 12 \<Longrightarrow>
     extractPaymentCode up c = Inl (InvalidCodeFormat c)"
  by (simp add: extractPaymentCode_def)

lemma extractPaymentCode_found:
  "strings_Index (strings_ToUpper up c) ''ATMT'' = Some i \<Longrightarrow>
   i + 12 \<le> length (strings_ToUpper up c) \<Longrightarrow>
     extractPaymentCode up c = Inr (take 8 (drop (i + 4) (strings_ToUpper up c)))"
  by (simp add: extractPaymentCode_def slice_def)


text \<open>
  The four outcomes of the settlement when no store operation fails.
\<close>

lemma settlePayment_no_user:
  assumes "fault_at e = None"
    and "FindOne (\<lambda>u. u_PaymentCode u = Some code) (users db) = None"
  shows "settlePayment e db pay code =
    ((Some (pay\<lparr>p_Status := PaymentStatusFailed, p_ProcessedAt := Some (clock e 1)\<rparr>),
      Some (NoUserWithCode code)),
     db\<lparr>payments := payments db
        @ [pay\<lparr>p_Status := PaymentStatusFailed, p_ProcessedAt := Some (clock e 1)\<rparr>]\<rparr>)"
  using assms by (simp add: settlePayment_def savePayment_ok)

lemma settlePayment_banned:
  assumes "fault_at e = None"
    and "FindOne (\<lambda>u. u_PaymentCode u = Some code) (users db) = Some user"
    and "u_IsBanned user"
  shows "settlePayment e db pay code =
    ((Some (pay\<lparr>p_Status := PaymentStatusFailed, p_ProcessedAt := Some (clock e 1)\<rparr>),
      Some (UserIsBanned (u_Email user))),
     db\<lparr>payments := payments db
        @ [pay\<lparr>p_Status := PaymentStatusFailed, p_ProcessedAt := Some (clock e 1)\<rparr>]\<rparr>)"
  using assms by (simp add: settlePayment_def savePayment_ok)

lemma settlePayment_no_session:
  assumes "fault_at e = None"
    and "FindOne (\<lambda>u. u_PaymentCode u = Some code) (users db) = Some user"
    and "\<not> u_IsBanned user"
    and "\<forall>s\<in>set (payment_sessions db). \<not> sessionFilter code s"
  shows "settlePayment e db pay code =
    ((Some (pay\<lparr>p_Status := PaymentStatusFailed, p_ProcessedAt := Some (clock e 1)\<rparr>),
      Some (NoPendingSession code)),
     db\<lparr>payments := payments db
        @ [pay\<lparr>p_Status := PaymentStatusFailed, p_ProcessedAt := Some (clock e 1)\<rparr>]\<rparr>)"
  using assms by (simp add: settlePayment_def savePayment_ok UpdateOne_no_match Let_def)

lemma settlePayment_processed:
  assumes "fault_at e = None"
    and "FindOne (\<lambda>u. u_PaymentCode u = Some code) (users db) = Some user"
    and "\<not> u_IsBanned user"
    and "\<exists>s\<in>set (payment_sessions db). sessionFilter code s"
  shows "settlePayment e db pay code =
    ((Some (pay\<lparr>p_Status := PaymentStatusProcessed, p_UserID := Some (u_ID user),
               p_ProcessedAt := Some (clock e 1)\<rparr>), None),
     db\<lparr>payment_sessions :=
          fst (UpdateOne (sessionFilter code) (sessionUpdate (clock e 1)) (payment_sessions db)),
        users := fst (UpdateOne (\<lambda>u. u_ID u = u_ID user) (userUpdate (clock e 1)) (users db)),
        payments := payments db
          @ [pay\<lparr>p_Status := PaymentStatusProcessed, p_UserID := Some (u_ID user),
                 p_ProcessedAt := Some (clock e 1)\<rparr>]\<rparr>)"
  using assms by (simp add: settlePayment_def savePayment_ok UpdateOne_snd Let_def)

lemma settlePayment_no_pending:
  assumes "fault_at e = None"
    and "\<forall>s\<in>set (payment_sessions db). \<not> sessionFilter code s"
  shows "\<exists>err. settlePayment e db pay code =
    ((Some (pay\<lparr>p_Status := PaymentStatusFailed, p_ProcessedAt := Some (clock e 1)\<rparr>),
      Some err),
     db\<lparr>payments := payments db
        @ [pay\<lparr>p_Status := PaymentStatusFailed, p_ProcessedAt := Some (clock e 1)\<rparr>]\<rparr>)"
proof (cases "FindOne (\<lambda>u. u_PaymentCode u = Some code) (users db)")
  case None
  from settlePayment_no_user [OF assms(1) None, of pay] show ?thesis by simp
next
  case (Some user)
  show ?thesis
  proof (cases "u_IsBanned user")
    case True
    from settlePayment_banned [OF assms(1) Some True, of pay] show ?thesis by simp
  next
    case False
    from settlePayment_no_session [OF assms(1) Some False assms(2), of pay]
    show ?thesis by simp
  qed
qed

lemma settlePayment_ledger:
  assumes "fault_at e = None"
  shows "\<exists>p out. fst (settlePayment e db pay code) = (Some p, out)
           \<and> payments (snd (settlePayment e db pay code)) = payments db @ [p]
           \<and> (p = pay\<lparr>p_Status := PaymentStatusFailed, p_ProcessedAt := Some (clock e 1)\<rparr>
              \<or> (\<exists>uid. p = pay\<lparr>p_Status := PaymentStatusProcessed, p_UserID := Some uid,
                                 p_ProcessedAt := Some (clock e 1)\<rparr>))"
proof (cases "FindOne (\<lambda>u. u_PaymentCode u = Some code) (users db)")
  case None
  from settlePayment_no_user [OF assms None, of pay] show ?thesis by simp
next
  case (Some user)
  show ?thesis
  proof (cases "u_IsBanned user")
    case True
    from settlePayment_banned [OF assms Some True, of pay] show ?thesis by simp
  next
    case False
    show ?thesis
    proof (cases "\<exists>s\<in>set (payment_sessions db). sessionFilter code s")
      case True
      from settlePayment_processed [OF assms Some False True, of pay] show ?thesis by auto
    next
      case no: False
      then have "\<forall>s\<in>set (payment_sessions db). \<not> sessionFilter code s" by simp
      from settlePayment_no_session [OF assms Some False this, of pay] show ?thesis by simp
    qed
  qed
qed

lemma settlePayment_success:
  assumes "fst (settlePayment e db pay code) = (Some p, None)"
  shows "\<exists>user. FindOne (\<lambda>u. u_PaymentCode u = Some code) (users db) = Some user
           \<and> p_UserID p = Some (u_ID user)
           \<and> payment_sessions (snd (settlePayment e db pay code))
               = fst (UpdateOne (sessionFilter code) (sessionUpdate (clock e 1))
                        (payment_sessions db))
           \<and> users (snd (settlePayment e db pay code))
               = fst (UpdateOne (\<lambda>u. u_ID u = u_ID user) (userUpdate (clock e 1)) (users db))"
  using assms
  by (auto simp: settlePayment_def savePayment_def Let_def split: option.splits if_splits)

text \<open>
  The three stages of a call: amount check, extraction, settlement.
\<close>

lemma ProcessWebhookPayment_amount:
  "fault_at e = None \<Longrightarrow> w_TransferAmount w \<noteq> 5000000 \<Longrightarrow>
     ProcessWebhookPayment up e db w =
       ((Some ((ToPayment (clock e 0) w)
                 \<lparr>p_Status := PaymentStatusIgnored, p_ProcessedAt := Some (clock e 1)\<rparr>),
         Some (IncorrectAmount (w_TransferAmount w))),
        db\<lparr>payments := payments db
          @ [(ToPayment (clock e 0) w)
               \<lparr>p_Status := PaymentStatusIgnored, p_ProcessedAt := Some (clock e 1)\<rparr>]\<rparr>)"
  by (simp add: ProcessWebhookPayment_def savePayment_ok ToPayment_def)

lemma ProcessWebhookPayment_unparsed:
  "fault_at e = None \<Longrightarrow> w_TransferAmount w = 5000000 \<Longrightarrow>
   extractPaymentCode up (w_Content w) = Inl err \<Longrightarrow>
     ProcessWebhookPayment up e db w =
       ((Some ((ToPayment (clock e 0) w)
                 \<lparr>p_Status := PaymentStatusIgnored, p_ProcessedAt := Some (clock e 1)\<rparr>),
         Some err),
        db\<lparr>payments := payments db
          @ [(ToPayment (clock e 0) w)
               \<lparr>p_Status := PaymentStatusIgnored, p_ProcessedAt := Some (clock e 1)\<rparr>]\<rparr>)"
  by (simp add: ProcessWebhookPayment_def savePayment_ok ToPayment_def)

lemma ProcessWebhookPayment_parsed:
  "w_TransferAmount w = 5000000 \<Longrightarrow> extractPaymentCode up (w_Content w) = Inr code \<Longrightarrow>
     ProcessWebhookPayment up e db w = settlePayment e db (ToPayment (clock e 0) w) code"
  by (simp add: ProcessWebhookPayment_def ToPayment_def)

lemma ProcessWebhookPayment_processed:
  assumes "fault_at e = None"
    and "w_TransferAmount w = 5000000"
    and "extractPaymentCode up (w_Content w) = Inr code"
    and "FindOne (\<lambda>u. u_PaymentCode u = Some code) (users db) = Some user"
    and "\<not> u_IsBanned user"
    and "i < length (payment_sessions db)"
    and "sessionFilter code (payment_sessions db ! i)"
    and "\<forall>j<i. \<not> sessionFilter code (payment_sessions db ! j)"
  shows "ProcessWebhookPayment up e db w =
    ((Some ((ToPayment (clock e 0) w)\<lparr>p_Status := PaymentStatusProcessed,
              p_UserID := Some (u_ID user), p_ProcessedAt := Some (clock e 1)\<rparr>), None),
     db\<lparr>payment_sessions :=
          (payment_sessions db)[i := sessionUpdate (clock e 1) (payment_sessions db ! i)],
        users := fst (UpdateOne (\<lambda>u. u_ID u = u_ID user) (userUpdate (clock e 1)) (users db)),
        payments := payments db
          @ [(ToPayment (clock e 0) w)\<lparr>p_Status := PaymentStatusProcessed,
               p_UserID := Some (u_ID user), p_ProcessedAt := Some (clock e 1)\<rparr>]\<rparr>)"
proof -
  from assms(6,7) have "\<exists>s\<in>set (payment_sessions db). sessionFilter code s"
    using nth_mem by blast
  from settlePayment_processed [OF assms(1,4,5) this, of "ToPayment (clock e 0) w"]
    UpdateOne_first [OF assms(6,7,8), of "sessionUpdate (clock e 1)"]
    ProcessWebhookPayment_parsed [OF assms(2,3), where e = e and db = db]
  show ?thesis by simp
qed

lemma ProcessWebhookPayment_success:
  assumes "fst (ProcessWebhookPayment up e db w) = (Some p, None)"
  shows "\<exists>code user. w_TransferAmount w = 5000000
           \<and> extractPaymentCode up (w_Content w) = Inr code
           \<and> FindOne (\<lambda>u. u_PaymentCode u = Some code) (users db) = Some user
           \<and> p_UserID p = Some (u_ID user)
           \<and> payment_sessions (snd (ProcessWebhookPayment up e db w))
               = fst (UpdateOne (sessionFilter code) (sessionUpdate (clock e 1))
                        (payment_sessions db))
           \<and> users (snd (ProcessWebhookPayment up e db w))
               = fst (UpdateOne (\<lambda>u. u_ID u = u_ID user) (userUpdate (clock e 1)) (users db))"
proof (cases "w_TransferAmount w = 5000000")
  case False
  with assms show ?thesis
    by (simp add: ProcessWebhookPayment_def savePayment_def ToPayment_def split: if_splits)
next
  case amt: True
  show ?thesis
  proof (cases "extractPaymentCode up (w_Content w)")
    case (Inl err)
    with amt assms show ?thesis
      by (simp add: ProcessWebhookPayment_def savePayment_def ToPayment_def split: if_splits)
  next
    case (Inr code)
    from assms ProcessWebhookPayment_parsed [OF amt Inr, where e = e and db = db]
    have "fst (settlePayment e db (ToPayment (clock e 0) w) code) = (Some p, None)" by simp
    from settlePayment_success [OF this] ProcessWebhookPayment_parsed [OF amt Inr, where e = e and db = db]
      amt Inr
    show ?thesis by auto
  qed
qed

text \<open>
  A call that passes the amount check and finds the marker with 8 bytes after it is
  the settlement for those 8 bytes of the upper-cased content.
\<close>

lemma ProcessWebhookPayment_located:
  assumes "w_TransferAmount w = 5000000"
    and "strings_Index (strings_ToUpper up (w_Content w)) ''ATMT'' = Some i
         \<and> 8 \<le> length (strings_ToUpper up (w_Content w)) - (i + 4)
         \<and> code = take 8 (drop (i + 4) (strings_ToUpper up (w_Content w)))"
  shows "ProcessWebhookPayment up e db w = settlePayment e db (ToPayment (clock e 0) w) code"
proof -
  from assms(2) have idx: "strings_Index (strings_ToUpper up (w_Content w)) ''ATMT'' = Some i"
    and len: "8 \<le> length (strings_ToUpper up (w_Content w)) - (i + 4)"
    and code: "code = take 8 (drop (i + 4) (strings_ToUpper up (w_Content w)))"
    by blast+
  from len have "i + 12 \<le> length (strings_ToUpper up (w_Content w))" by arith
  from extractPaymentCode_found [OF idx this] code
  have "extractPaymentCode up (w_Content w) = Inr code" by simp
  from ProcessWebhookPayment_parsed [OF assms(1) this] show ?thesis .
qed

text \<open>The filter and the two update documents, written out.\<close>

lemma sessionFilter_fun:
  "sessionFilter code = (\<lambda>s. s_PaymentCode s = code \<and> s_Status s = PaymentStatusPending)"
  by (simp add: fun_eq_iff sessionFilter_def)

lemma sessionUpdate_fun:
  "sessionUpdate now
     = (\<lambda>s. s\<lparr>s_Status := PaymentStatusCompleted, s_CompletedAt := Some now\<rparr>)"
  by (simp add: fun_eq_iff sessionUpdate_def)

lemma userUpdate_fun:
  "userUpdate now = (\<lambda>u. u\<lparr>u_Owned := True, u_UpdatedAt := now, u_PaymentCode := None\<rparr>)"
  by (simp add: fun_eq_iff userUpdate_def)

section \<open>Effects on the session collection\<close>

text \<open>
  What one call does to the session collection, whatever fails.
\<close>

lemma settlePayment_sessions:
  "payment_sessions (snd (settlePayment e db pay code)) = payment_sessions db
   \<or> payment_sessions (snd (settlePayment e db pay code))
       = fst (UpdateOne (sessionFilter code) (sessionUpdate (clock e 1)) (payment_sessions db))"
  by (simp add: settlePayment_def savePayment_def Let_def split: option.splits)

lemma ProcessWebhookPayment_sessions:
  "payment_sessions (snd (ProcessWebhookPayment up e db w)) = payment_sessions db
   \<or> (\<exists>code. w_TransferAmount w = 5000000 \<and> extractPaymentCode up (w_Content w) = Inr code
        \<and> payment_sessions (snd (ProcessWebhookPayment up e db w))
            = fst (UpdateOne (sessionFilter code) (sessionUpdate (clock e 1))
                     (payment_sessions db)))"
proof (cases "w_TransferAmount w = 5000000")
  case False
  then show ?thesis
    by (simp add: ProcessWebhookPayment_def savePayment_def ToPayment_def)
next
  case amt: True
  show ?thesis
  proof (cases "extractPaymentCode up (w_Content w)")
    case (Inl err)
    with amt show ?thesis
      by (simp add: ProcessWebhookPayment_def savePayment_def ToPayment_def)
  next
    case (Inr code)
    from settlePayment_sessions [of e db "ToPayment (clock e 0) w" code]
      ProcessWebhookPayment_parsed [OF amt Inr, where e = e and db = db] amt Inr
    show ?thesis by auto
  qed
qed

lemma ProcessWebhookPayment_steps:
  "list_all2 (\<lambda>s s'. s' = s \<or> (s_Status s = PaymentStatusPending
        \<and> s' = s\<lparr>s_Status := PaymentStatusCompleted, s_CompletedAt := Some (clock e 1)\<rparr>))
     (payment_sessions db) (payment_sessions (snd (ProcessWebhookPayment up e db w)))"
proof -
  have same: "list_all2 (\<lambda>s s'. s' = s \<or> (s_Status s = PaymentStatusPending
        \<and> s' = s\<lparr>s_Status := PaymentStatusCompleted, s_CompletedAt := Some (clock e 1)\<rparr>))
     (payment_sessions db) (payment_sessions db)"
    by (simp add: list_all2_same)
  have upd: "list_all2 (\<lambda>s s'. s' = s \<or> (s_Status s = PaymentStatusPending
        \<and> s' = s\<lparr>s_Status := PaymentStatusCompleted, s_CompletedAt := Some (clock e 1)\<rparr>))
     (payment_sessions db)
     (fst (UpdateOne (sessionFilter code) (sessionUpdate (clock e 1)) (payment_sessions db)))"
    for code
    by (rule list_all2_mono [OF UpdateOne_steps])
      (auto simp: sessionFilter_def sessionUpdate_def)
  from ProcessWebhookPayment_sessions [where up = up and e = e and db = db and w = w] same upd show ?thesis by auto
qed

lemma sessionUpdate_code [simp]: "s_PaymentCode (sessionUpdate t s) = s_PaymentCode s"
  by (simp add: sessionUpdate_def)

lemma ProcessWebhookPayment_codes:
  "map s_PaymentCode (payment_sessions (snd (ProcessWebhookPayment up e db w)))
     = map s_PaymentCode (payment_sessions db)"
  using ProcessWebhookPayment_sessions [where up = up and e = e and db = db and w = w] by (auto simp: UpdateOne_map)

lemma step_codes_distinct:
  assumes "step up db r = Some db'" and "distinct (map s_PaymentCode (payment_sessions db))"
  shows "distinct (map s_PaymentCode (payment_sessions db'))"
proof (cases r)
  case (Initiate e userID)
  with assms(1) obtain res where "InitiatePayment e db userID = Some (res, db')"
    by auto
  from InitiatePayment_sessions [OF this] assms(2) show ?thesis by auto
next
  case (Webhook e w)
  with assms(1) have db': "db' = snd (ProcessWebhookPayment up e db w)" by simp
  from ProcessWebhookPayment_sessions [where up = up and e = e and db = db and w = w]
  have "map s_PaymentCode (payment_sessions (snd (ProcessWebhookPayment up e db w)))
          = map s_PaymentCode (payment_sessions db)"
    by (auto simp: UpdateOne_map)
  with db' assms(2) show ?thesis by simp
qed

lemma run_codes_distinct:
  "run up db rs = Some db' \<Longrightarrow> distinct (map s_PaymentCode (payment_sessions db))
     \<Longrightarrow> distinct (map s_PaymentCode (payment_sessions db'))"
proof (induction rs arbitrary: db)
  case Nil
  then show ?case by simp
next
  case (Cons r rs)
  from Cons.prems(1) obtain db1 where s: "step up db r = Some db1" and "run up db1 rs = Some db'"
    by (auto split: option.splits)
  from Cons.IH [OF this(2) step_codes_distinct [OF s Cons.prems(2)]] show ?case .
qed

lemma step_expired:
  assumes "step up db r = Some db'" and "s \<in> set (payment_sessions db')"
    and "s_Status s = PaymentStatusExpired"
  shows "s \<in> set (payment_sessions db)"
proof (cases r)
  case (Initiate e userID)
  with assms(1) obtain res where "InitiatePayment e db userID = Some (res, db')"
    by auto
  from InitiatePayment_sessions [OF this] assms(2,3) show ?thesis by auto
next
  case (Webhook e w)
  with assms(1) have db': "db' = snd (ProcessWebhookPayment up e db w)" by simp
  from list_all2_setD2 [OF ProcessWebhookPayment_steps [where up = up and e = e and db = db and w = w]] assms(2) db'
  obtain s0 where "s0 \<in> set (payment_sessions db)"
    "s = s0 \<or> (s_Status s0 = PaymentStatusPending
        \<and> s = s0\<lparr>s_Status := PaymentStatusCompleted, s_CompletedAt := Some (clock e 1)\<rparr>)"
    by blast
  with assms(3) show ?thesis by auto
qed

lemma run_expired:
  "run up db rs = Some db' \<Longrightarrow> s \<in> set (payment_sessions db')
     \<Longrightarrow> s_Status s = PaymentStatusExpired \<Longrightarrow> s \<in> set (payment_sessions db)"
proof (induction rs arbitrary: db)
  case Nil
  then show ?case by simp
next
  case (Cons r rs)
  from Cons.prems(1) obtain db1 where s: "step up db r = Some db1" and r: "run up db1 rs = Some db'"
    by (auto split: option.splits)
  from Cons.IH [OF r Cons.prems(2,3)] have "s \<in> set (payment_sessions db1)" .
  from step_expired [OF s this Cons.prems(3)] show ?case .
qed

lemma distinct_codes_first:
  assumes "distinct (map s_PaymentCode ss)" and "i < length ss" and "j < i"
  shows "\<not> sessionFilter (s_PaymentCode (ss ! i)) (ss ! j)"
proof
  assume "sessionFilter (s_PaymentCode (ss ! i)) (ss ! j)"
  with assms(2,3) have "map s_PaymentCode ss ! j = map s_PaymentCode ss ! i"
    by (simp add: sessionFilter_def)
  moreover from assms(2,3) have "j < length (map s_PaymentCode ss)"
    "i < length (map s_PaymentCode ss)" by simp_all
  ultimately have "j = i" using assms(1) nth_eq_iff_index_eq by blast
  with assms(3) show False by simp
qed

text \<open>
  A call leaves the session collection changed exactly when it reaches the conditional
  update and the update reports \<open>MatchedCount\<close> 1.
\<close>

lemma sessionUpdate_changes: "sessionFilter code s \<Longrightarrow> sessionUpdate now s \<noteq> s"
proof
  assume "sessionFilter code s" and eq: "sessionUpdate now s = s"
  then have "s_Status s = PaymentStatusPending" by (simp add: sessionFilter_def)
  moreover have "s_Status (sessionUpdate now s) = PaymentStatusCompleted"
    by (simp add: sessionUpdate_def)
  ultimately show False using eq by simp
qed

lemma sessionMatched_MatchedCount:
  "sessionMatched up e db w \<longleftrightarrow>
     w_TransferAmount w = 5000000
     \<and> (\<exists>code user. extractPaymentCode up (w_Content w) = Inr code
          \<and> fault_at e \<noteq> Some 0 \<and> fault_at e \<noteq> Some 1
          \<and> FindOne (\<lambda>u. u_PaymentCode u = Some code) (users db) = Some user
          \<and> \<not> u_IsBanned user
          \<and> snd (UpdateOne (sessionFilter code) (sessionUpdate (clock e 1))
                   (payment_sessions db)) = 1)"
proof (cases "w_TransferAmount w = 5000000")
  case False
  then show ?thesis
    by (simp add: sessionMatched_def ProcessWebhookPayment_def savePayment_def ToPayment_def)
next
  case amt: True
  show ?thesis
  proof (cases "extractPaymentCode up (w_Content w)")
    case (Inl err)
    with amt show ?thesis
      by (simp add: sessionMatched_def ProcessWebhookPayment_def savePayment_def ToPayment_def)
  next
    case (Inr code)
    have ch: "(fst (UpdateOne (sessionFilter code) (sessionUpdate (clock e 1))
                 (payment_sessions db)) \<noteq> payment_sessions db)
          = (snd (UpdateOne (sessionFilter code) (sessionUpdate (clock e 1))
                   (payment_sessions db)) = 1)"
      by (rule UpdateOne_changes) (rule sessionUpdate_changes)
    have z: "snd (UpdateOne (sessionFilter code) (sessionUpdate (clock e 1))
                   (payment_sessions db)) = 0
          \<or> snd (UpdateOne (sessionFilter code) (sessionUpdate (clock e 1))
                   (payment_sessions db)) = 1"
      by (simp add: UpdateOne_snd)
    from amt Inr ch z ProcessWebhookPayment_parsed [OF amt Inr, where e = e and db = db] show ?thesis
      by (auto simp: sessionMatched_def settlePayment_def savePayment_def Let_def
          split: option.splits)
  qed
qed

text \<open>
  With unique codes, the conditional update for a code leaves no Pending session with
  that code, and no call makes a session Pending.
\<close>

lemma UpdateOne_consumes:
  "distinct (map s_PaymentCode ss) \<Longrightarrow>
     \<forall>s\<in>set (fst (UpdateOne (sessionFilter c) (sessionUpdate t) ss)). \<not> sessionFilter c s"
proof (induction ss)
  case Nil
  then show ?case by simp
next
  case (Cons d ds)
  show ?case
  proof (cases "sessionFilter c d")
    case True
    then have "s_PaymentCode d = c" by (simp add: sessionFilter_def)
    with Cons.prems have "c \<notin> s_PaymentCode ` set ds" by simp
    then have "\<forall>s\<in>set ds. s_PaymentCode s \<noteq> c" by blast
    with True show ?thesis by (auto simp: sessionFilter_def sessionUpdate_def)
  next
    case False
    with Cons show ?thesis by simp
  qed
qed

lemma UpdateOne_no_new_pending:
  assumes "s \<in> set (fst (UpdateOne (sessionFilter c') (sessionUpdate t) ss))"
    and "sessionFilter c s"
  shows "s \<in> set ss"
proof -
  from list_all2_setD2 [OF UpdateOne_steps assms(1)]
  obtain s0 where "s0 \<in> set ss" "s = s0 \<or> (sessionFilter c' s0 \<and> s = sessionUpdate t s0)"
    by blast
  with assms(2) show ?thesis by (auto simp: sessionFilter_def sessionUpdate_def)
qed

lemma ProcessWebhookPayment_no_new_pending:
  assumes "s \<in> set (payment_sessions (snd (ProcessWebhookPayment up e db w)))"
    and "sessionFilter c s"
  shows "s \<in> set (payment_sessions db)"
  using ProcessWebhookPayment_sessions [where up = up and e = e and db = db and w = w] assms UpdateOne_no_new_pending
  by auto

lemma sessionMatched_consumes:
  assumes "sessionMatched up e db w" and "extractPaymentCode up (w_Content w) = Inr code"
    and "distinct (map s_PaymentCode (payment_sessions db))"
  shows "(\<exists>s\<in>set (payment_sessions db). sessionFilter code s)
       \<and> (\<forall>s\<in>set (payment_sessions (snd (ProcessWebhookPayment up e db w))).
             \<not> sessionFilter code s)"
proof -
  from assms(1,2) ProcessWebhookPayment_sessions [where up = up and e = e and db = db and w = w]
  have upd: "payment_sessions (snd (ProcessWebhookPayment up e db w))
      = fst (UpdateOne (sessionFilter code) (sessionUpdate (clock e 1)) (payment_sessions db))"
    and ne: "payment_sessions (snd (ProcessWebhookPayment up e db w)) \<noteq> payment_sessions db"
    by (auto simp: sessionMatched_def)
  have "\<exists>s\<in>set (payment_sessions db). sessionFilter code s"
  proof (rule ccontr)
    assume "\<not> (\<exists>s\<in>set (payment_sessions db). sessionFilter code s)"
    then have "\<forall>s\<in>set (payment_sessions db). \<not> sessionFilter code s" by simp
    from UpdateOne_no_match [OF this, of "sessionUpdate (clock e 1)"] upd ne
    show False by simp
  qed
  with upd UpdateOne_consumes [OF assms(3), of code "clock e 1"] show ?thesis by simp
qed

lemma matchedCalls_at_most_one:
  "distinct (map s_PaymentCode (payment_sessions db)) \<Longrightarrow>
     length (filter (\<lambda>c. extractPaymentCode up (w_Content (snd c)) = Inr code)
               (matchedCalls up db calls))
       \<le> (if \<exists>s\<in>set (payment_sessions db). sessionFilter code s then 1 else 0)"
proof (induction calls arbitrary: db)
  case Nil
  then show ?case by simp
next
  case (Cons c cs)
  let ?db' = "snd (ProcessWebhookPayment up (fst c) db (snd c))"
  let ?carries = "\<lambda>c. extractPaymentCode up (w_Content (snd c)) = Inr code"
  from Cons.prems have d': "distinct (map s_PaymentCode (payment_sessions ?db'))"
    by (simp add: ProcessWebhookPayment_codes)
  note ih = Cons.IH [OF d']
  show ?case
  proof (cases "sessionMatched up (fst c) db (snd c) \<and> ?carries c")
    case True
    from sessionMatched_consumes [where up = up and e = "fst c" and db = db and w = "snd c" and code = code] True Cons.prems
    have "\<exists>s\<in>set (payment_sessions db). sessionFilter code s"
      "\<forall>s\<in>set (payment_sessions ?db'). \<not> sessionFilter code s" by auto
    with ih True show ?thesis by simp
  next
    case False
    have "(\<exists>s\<in>set (payment_sessions ?db'). sessionFilter code s)
            \<Longrightarrow> (\<exists>s\<in>set (payment_sessions db). sessionFilter code s)"
      using ProcessWebhookPayment_no_new_pending by blast
    with ih False show ?thesis by (auto split: if_splits)
  qed
qed

section \<open>The content of the payment record\<close>


lemma savePayment_content:
  "users (snd (savePayment e n db p failure outcome)) = users db
   \<and> payment_sessions (snd (savePayment e n db p failure outcome)) = payment_sessions db
   \<and> map_option blankContent (fst (fst (savePayment e n db (p\<lparr>p_Content := c\<rparr>) failure out2)))
       = map_option blankContent (fst (fst (savePayment e n db p failure outcome)))
   \<and> map blankContent (payments (snd (savePayment e n db (p\<lparr>p_Content := c\<rparr>) failure out2)))
       = map blankContent (payments (snd (savePayment e n db p failure outcome)))"
  by (simp add: savePayment_def InsertOne_def blankContent_def)



section \<open>The scenario, evaluated\<close>

lemmas ex_defs = exUser_def exEnv_def exSession_def exDb0_def exDb1_def exWebhook_def
  exPayEnv_def exLateEnv_def exEnv2_def exSession2_def exDb2_def exBannedDb_def
  exWrongAmount_def exNoMarker_def exShortCode_def exUpper_def exDb3_def exWebhook2_def
  exLowerDb_def exLowerWebhook_def exCompletedDb_def

lemmas initiate_defs = InitiatePayment_def FindOne_def CountDocuments_def InsertOne_def
  generatePaymentCode_def rand_Read_def charset_def Let_def

lemmas webhook_defs = ProcessWebhookPayment_def settlePayment_def savePayment_def
  extractPaymentCode_def strings_ToUpper_def isASCII_def upperChar_def slice_def ToPayment_def
  FindOne_def InsertOne_def sessionFilter_def sessionUpdate_def userUpdate_def Let_def

lemma ex_first_creation: "InitiatePayment exEnv exDb0 1 = Some (Inr exSession, exDb1)"
  by (simp add: initiate_defs ex_defs)

lemma ex_second_creation: "InitiatePayment exEnv2 exDb1 1 = Some (Inr exSession2, exDb2)"
  by (simp add: initiate_defs ex_defs)

lemma ex_extract: "extractPaymentCode exUpper (w_Content exWebhook) = Inr ''AB12CD34''"
  by (simp add: webhook_defs ex_defs)

lemma ex_paid:
  "ProcessWebhookPayment exUpper exPayEnv exDb1 exWebhook =
     ((Some ((ToPayment 2000 exWebhook)\<lparr>p_Status := PaymentStatusProcessed,
               p_UserID := Some 1, p_ProcessedAt := Some 2001\<rparr>), None),
      \<lparr> users = [exUser\<lparr>u_Owned := True, u_UpdatedAt := 2001\<rparr>],
        payment_sessions = [exSession\<lparr>s_Status := PaymentStatusCompleted,
                                      s_CompletedAt := Some 2001\<rparr>],
        payments = [(ToPayment 2000 exWebhook)\<lparr>p_Status := PaymentStatusProcessed,
               p_UserID := Some 1, p_ProcessedAt := Some 2001\<rparr>] \<rparr>)"
  by (simp add: webhook_defs ex_defs)

lemma ex_history:
  "run exUpper exDb0 exHistory =
     Some (snd (ProcessWebhookPayment exUpper exPayEnv exDb2 exWebhook))"
  using ex_first_creation ex_second_creation by (simp add: exHistory_def)

section \<open>The claims\<close>

subsection \<open>C1: a matching webhook completes the session and grants the entitlement\<close>

text \<open>
  Claim C1, as the code has it. Let a session be Pending and let its code be carried
  by no other session. Let a webhook transfer exactly 5,000,000 and let the first
  occurrence of ATMT in its upper-cased content be followed at once by the 8
  characters of that code. If no store operation fails and the user document found by
  the pending-code lookup is the session's user and is not banned, the call returns
  the payment without error, the session is Completed with its completion time set,
  the session's user has owned = true and no pending code, and exactly one ledger
  record is appended, with status Processed and linked to that user. The lookup goes
  through the user's pending code, not through the session: without the hypotheses on
  the user the claim fails, as the counterexample below shows.
\<close>

theorem C1_matching_webhook_completes_and_grants:
  assumes "fault_at e = None"
    and "i < length (payment_sessions db)" and "payment_sessions db ! i = s"
    and "s_Status s = PaymentStatusPending"
    and "\<forall>j<length (payment_sessions db).
           j \<noteq> i \<longrightarrow> s_PaymentCode (payment_sessions db ! j) \<noteq> s_PaymentCode s"
    and "w_TransferAmount w = 5000000"
    and "strings_Index (strings_ToUpper up (w_Content w)) ''ATMT'' = Some k"
    and "k + 12 \<le> length (strings_ToUpper up (w_Content w))"
    and "take 8 (drop (k + 4) (strings_ToUpper up (w_Content w))) = s_PaymentCode s"
    and "FindOne (\<lambda>u. u_PaymentCode u = Some (s_PaymentCode s)) (users db) = Some user"
    and "u_ID user = s_UserID s" and "\<not> u_IsBanned user"
  shows "\<exists>p db'. ProcessWebhookPayment up e db w = ((Some p, None), db')
      \<and> payment_sessions db' = (payment_sessions db)
           [i := s\<lparr>s_Status := PaymentStatusCompleted, s_CompletedAt := Some (clock e 1)\<rparr>]
      \<and> (\<exists>u'. FindOne (\<lambda>u. u_ID u = s_UserID s) (users db') = Some u'
             \<and> u_Owned u' \<and> u_PaymentCode u' = None)
      \<and> payments db' = payments db @ [p]
      \<and> p_Status p = PaymentStatusProcessed \<and> p_UserID p = Some (s_UserID s)"
proof -
  from extractPaymentCode_found [OF assms(7,8)] assms(9)
  have ex: "extractPaymentCode up (w_Content w) = Inr (s_PaymentCode s)" by simp
  from assms(3,4) have flt: "sessionFilter (s_PaymentCode s) (payment_sessions db ! i)"
    by (simp add: sessionFilter_def)
  have first: "\<forall>j<i. \<not> sessionFilter (s_PaymentCode s) (payment_sessions db ! j)"
  proof (intro allI impI)
    fix j
    assume "j < i"
    with assms(2) have "j < length (payment_sessions db)" "j \<noteq> i" by simp_all
    with assms(5) have "s_PaymentCode (payment_sessions db ! j) \<noteq> s_PaymentCode s"
      by blast
    then show "\<not> sessionFilter (s_PaymentCode s) (payment_sessions db ! j)"
      by (simp add: sessionFilter_def)
  qed
  from assms(10) have "user \<in> set (users db)"
    by (auto simp: FindOne_def find_Some_iff)
  from find_by_key_exists [OF this, of u_ID] assms(11)
  obtain u0 where u0: "find (\<lambda>u. u_ID u = s_UserID s) (users db) = Some u0" by auto
  then have "u_ID u0 = s_UserID s" by (auto simp: find_Some_iff)
  then have "u_ID (userUpdate (clock e 1) u0) = s_UserID s" by (simp add: userUpdate_def)
  from find_UpdateOne_same [OF u0, of "userUpdate (clock e 1)", OF this]
  have "FindOne (\<lambda>u. u_ID u = s_UserID s)
          (fst (UpdateOne (\<lambda>u. u_ID u = s_UserID s) (userUpdate (clock e 1)) (users db)))
        = Some (userUpdate (clock e 1) u0)"
    by (simp add: FindOne_def)
  with ProcessWebhookPayment_processed [OF assms(1,6) ex assms(10,12,2) flt first] assms(3,11)
  show ?thesis by (simp add: sessionUpdate_def userUpdate_def)
qed

text \<open>
  A store in which the first two sessions share the code AB12CD34 and the third, of
  code ZZ99ZZ99, is carried by no other session: the webhook paying the third session
  satisfies every hypothesis.
\<close>

theorem C1_witness:
  "fault_at exPayEnv = None
   \<and> 2 < length (payment_sessions exDb3)
   \<and> payment_sessions exDb3 ! 2 = exSession2
   \<and> s_Status exSession2 = PaymentStatusPending
   \<and> map s_PaymentCode (payment_sessions exDb3) = [''AB12CD34'', ''AB12CD34'', ''ZZ99ZZ99'']
   \<and> w_TransferAmount exWebhook2 = 5000000
   \<and> strings_Index (strings_ToUpper exUpper (w_Content exWebhook2)) ''ATMT'' = Some 3
   \<and> 3 + 12 \<le> length (strings_ToUpper exUpper (w_Content exWebhook2))
   \<and> take 8 (drop (3 + 4) (strings_ToUpper exUpper (w_Content exWebhook2)))
       = s_PaymentCode exSession2
   \<and> FindOne (\<lambda>u. u_PaymentCode u = Some (s_PaymentCode exSession2)) (users exDb3)
       = Some (exUser\<lparr>u_PaymentCode := Some ''ZZ99ZZ99'', u_UpdatedAt := 1500\<rparr>)
   \<and> u_ID (exUser\<lparr>u_PaymentCode := Some ''ZZ99ZZ99'', u_UpdatedAt := 1500\<rparr>)
       = s_UserID exSession2
   \<and> \<not> u_IsBanned (exUser\<lparr>u_PaymentCode := Some ''ZZ99ZZ99'', u_UpdatedAt := 1500\<rparr>)
   \<and> (\<exists>p db'. ProcessWebhookPayment exUpper exPayEnv exDb3 exWebhook2 = ((Some p, None), db')
      \<and> payment_sessions db' = (payment_sessions exDb3)
           [2 := exSession2\<lparr>s_Status := PaymentStatusCompleted,
                             s_CompletedAt := Some (clock exPayEnv 1)\<rparr>]
      \<and> (\<exists>u'. FindOne (\<lambda>u. u_ID u = s_UserID exSession2) (users db') = Some u'
             \<and> u_Owned u' \<and> u_PaymentCode u' = None)
      \<and> payments db' = payments exDb3 @ [p]
      \<and> p_Status p = PaymentStatusProcessed \<and> p_UserID p = Some (s_UserID exSession2))"
proof -
  have h1: "fault_at exPayEnv = None"
    "2 < length (payment_sessions exDb3)"
    "payment_sessions exDb3 ! 2 = exSession2"
    "s_Status exSession2 = PaymentStatusPending"
    by (simp_all add: ex_defs)
  have codes: "map s_PaymentCode (payment_sessions exDb3)
      = [''AB12CD34'', ''AB12CD34'', ''ZZ99ZZ99'']"
    by (simp add: ex_defs)
  have other: "\<forall>j<length (payment_sessions exDb3).
      j \<noteq> 2 \<longrightarrow> s_PaymentCode (payment_sessions exDb3 ! j) \<noteq> s_PaymentCode exSession2"
  proof (intro allI impI)
    fix j
    assume "j < length (payment_sessions exDb3)" "j \<noteq> 2"
    then have "j = 0 \<or> j = 1" by (auto simp: ex_defs)
    then show "s_PaymentCode (payment_sessions exDb3 ! j) \<noteq> s_PaymentCode exSession2"
      by (auto simp: ex_defs)
  qed
  have h2: "w_TransferAmount exWebhook2 = 5000000"
    "strings_Index (strings_ToUpper exUpper (w_Content exWebhook2)) ''ATMT'' = Some 3"
    "3 + 12 \<le> length (strings_ToUpper exUpper (w_Content exWebhook2))"
    "take 8 (drop (3 + 4) (strings_ToUpper exUpper (w_Content exWebhook2)))
       = s_PaymentCode exSession2"
    "FindOne (\<lambda>u. u_PaymentCode u = Some (s_PaymentCode exSession2)) (users exDb3)
       = Some (exUser\<lparr>u_PaymentCode := Some ''ZZ99ZZ99'', u_UpdatedAt := 1500\<rparr>)"
    "u_ID (exUser\<lparr>u_PaymentCode := Some ''ZZ99ZZ99'', u_UpdatedAt := 1500\<rparr>)
       = s_UserID exSession2"
    "\<not> u_IsBanned (exUser\<lparr>u_PaymentCode := Some ''ZZ99ZZ99'', u_UpdatedAt := 1500\<rparr>)"
    by (simp_all add: webhook_defs ex_defs)
  from C1_matching_webhook_completes_and_grants [OF h1 other h2] h1 codes h2
  show ?thesis by (intro conjI)
qed

text \<open>
  The claim as stated is false. The user creates a session (code AB12CD34) and then a
  second one (code ZZ99ZZ99), which overwrites the pending code on the user document.
  The first session is still Pending, and a webhook of the right amount carries ATMT
  followed by its code; yet no user holds that code, so the resolution is Failed, both
  sessions stay Pending and the user does not own the product.
\<close>

theorem C1_counterexample:
  "InitiatePayment exEnv exDb0 1 = Some (Inr exSession, exDb1)
   \<and> InitiatePayment exEnv2 exDb1 1 = Some (Inr exSession2, exDb2)
   \<and> payment_sessions exDb2 ! 0 = exSession
   \<and> s_Status exSession = PaymentStatusPending
   \<and> s_UserID exSession = 1
   \<and> w_TransferAmount exWebhook = 5000000
   \<and> w_Content exWebhook = ''ATMT'' @ s_PaymentCode exSession @ '' chuyen tien mua san pham''
   \<and> length (s_PaymentCode exSession) = 8
   \<and> map_option p_Status (fst (fst (ProcessWebhookPayment exUpper exPayEnv exDb2 exWebhook)))
       = Some PaymentStatusFailed
   \<and> snd (fst (ProcessWebhookPayment exUpper exPayEnv exDb2 exWebhook))
       = Some (NoUserWithCode ''AB12CD34'')
   \<and> map s_Status (payment_sessions (snd (ProcessWebhookPayment exUpper exPayEnv exDb2 exWebhook)))
       = [PaymentStatusPending, PaymentStatusPending]
   \<and> map u_ID (users (snd (ProcessWebhookPayment exUpper exPayEnv exDb2 exWebhook))) = [1]
   \<and> map u_Owned (users (snd (ProcessWebhookPayment exUpper exPayEnv exDb2 exWebhook))) = [False]"
  by (intro conjI ex_first_creation ex_second_creation; simp add: webhook_defs ex_defs)

subsection \<open>C2: a banned user\<close>

text \<open>
  Claim C2, as the code has it. The user is looked up and the ban is checked before
  the conditional update of the session. For a webhook that passes the amount and
  parsing checks and whose code is the pending code of a banned user (the user the
  lookup finds) with a Pending session for that code: if no store operation fails, the
  resolution is Failed, one ledger record is appended with no user linked, and neither
  the session collection nor the user collection changes, so the session stays Pending
  and is not Completed.
\<close>

theorem C2_banned_user_leaves_session_pending:
  assumes "fault_at e = None"
    and "w_TransferAmount w = 5000000"
    and "extractPaymentCode up (w_Content w) = Inr code"
    and "FindOne (\<lambda>u. u_PaymentCode u = Some code) (users db) = Some user"
    and "u_IsBanned user"
    and "s \<in> set (payment_sessions db)"
    and "s_PaymentCode s = code"
    and "s_Status s = PaymentStatusPending"
  shows "\<exists>p db'. ProcessWebhookPayment up e db w = ((Some p, Some (UserIsBanned (u_Email user))), db')
           \<and> p_Status p = PaymentStatusFailed \<and> p_UserID p = None
           \<and> payments db' = payments db @ [p]
           \<and> payment_sessions db' = payment_sessions db
           \<and> users db' = users db
           \<and> s \<in> set (payment_sessions db') \<and> s_Status s \<noteq> PaymentStatusCompleted"
  using assms(6,8) ProcessWebhookPayment_parsed [OF assms(2,3), where e = e and db = db]
    settlePayment_banned [OF assms(1,4,5), of "ToPayment (clock e 0) w"]
  by (simp add: ToPayment_def)

text \<open>
  The scenario with the user banned after the session was created.
\<close>

theorem C2_witness:
  "fault_at exPayEnv = None
   \<and> w_TransferAmount exWebhook = 5000000
   \<and> extractPaymentCode exUpper (w_Content exWebhook) = Inr ''AB12CD34''
   \<and> FindOne (\<lambda>u. u_PaymentCode u = Some ''AB12CD34'') (users exBannedDb)
       = Some (exUser\<lparr>u_PaymentCode := Some ''AB12CD34'', u_IsBanned := True\<rparr>)
   \<and> u_IsBanned (exUser\<lparr>u_PaymentCode := Some ''AB12CD34'', u_IsBanned := True\<rparr>)
   \<and> exSession \<in> set (payment_sessions exBannedDb)
   \<and> s_PaymentCode exSession = ''AB12CD34''
   \<and> s_Status exSession = PaymentStatusPending
   \<and> (\<exists>p db'. ProcessWebhookPayment exUpper exPayEnv exBannedDb exWebhook
          = ((Some p, Some (UserIsBanned
               (u_Email (exUser\<lparr>u_PaymentCode := Some ''AB12CD34'', u_IsBanned := True\<rparr>)))),
             db')
        \<and> p_Status p = PaymentStatusFailed \<and> p_UserID p = None
        \<and> payments db' = payments exBannedDb @ [p]
        \<and> payment_sessions db' = payment_sessions exBannedDb
        \<and> users db' = users exBannedDb
        \<and> exSession \<in> set (payment_sessions db')
        \<and> s_Status exSession \<noteq> PaymentStatusCompleted)"
proof -
  have h: "fault_at exPayEnv = None"
    "w_TransferAmount exWebhook = 5000000"
    "extractPaymentCode exUpper (w_Content exWebhook) = Inr ''AB12CD34''"
    "FindOne (\<lambda>u. u_PaymentCode u = Some ''AB12CD34'') (users exBannedDb)
       = Some (exUser\<lparr>u_PaymentCode := Some ''AB12CD34'', u_IsBanned := True\<rparr>)"
    "u_IsBanned (exUser\<lparr>u_PaymentCode := Some ''AB12CD34'', u_IsBanned := True\<rparr>)"
    "exSession \<in> set (payment_sessions exBannedDb)"
    "s_PaymentCode exSession = ''AB12CD34''"
    "s_Status exSession = PaymentStatusPending"
    by (simp_all add: webhook_defs ex_defs)
  from C2_banned_user_leaves_session_pending [OF h] h show ?thesis
    by (intro conjI)
qed

text \<open>
  The claim as stated is false: in that state the resolution is Failed and the
  session is still Pending after the call, not Completed.
\<close>

theorem C2_counterexample:
  "w_TransferAmount exWebhook = 5000000
   \<and> extractPaymentCode exUpper (w_Content exWebhook) = Inr ''AB12CD34''
   \<and> map u_PaymentCode (users exBannedDb) = [Some ''AB12CD34'']
   \<and> map u_IsBanned (users exBannedDb) = [True]
   \<and> map s_PaymentCode (payment_sessions exBannedDb) = [''AB12CD34'']
   \<and> map s_Status (payment_sessions exBannedDb) = [PaymentStatusPending]
   \<and> map_option p_Status (fst (fst (ProcessWebhookPayment exUpper exPayEnv exBannedDb exWebhook)))
       = Some PaymentStatusFailed
   \<and> map s_Status (payment_sessions (snd (ProcessWebhookPayment exUpper exPayEnv exBannedDb exWebhook)))
       = [PaymentStatusPending]
   \<and> PaymentStatusPending \<noteq> PaymentStatusCompleted"
  by (intro conjI ex_extract; simp add: webhook_defs ex_defs)

subsection \<open>C3: duplicate delivery\<close>

text \<open>
  Claim C3. In a state whose session codes are pairwise distinct (the invariant of
  claim C6), over any sequence of webhook calls at most one call carrying a given
  code observes a session match; and if a call resolves as Processed, processing the
  same webhook again (at any later time, no store operation failing) appends a ledger
  record with status Failed and no linked user and changes nothing else: the user
  still has owned = true, and there is no second grant and no session transition.
\<close>

theorem C3_duplicate_delivery_idempotent:
  assumes "distinct (map s_PaymentCode (payment_sessions db))"
  shows "length (filter (\<lambda>c. extractPaymentCode up (w_Content (snd c)) = Inr code)
                  (matchedCalls up db calls)) \<le> 1
       \<and> (\<forall>p. fst (ProcessWebhookPayment up e db w) = (Some p, None) \<and> fault_at e' = None \<longrightarrow>
            (\<exists>uid u p' err.
               p_Status p = PaymentStatusProcessed \<and> p_UserID p = Some uid
               \<and> FindOne (\<lambda>u. u_ID u = uid) (users (snd (ProcessWebhookPayment up e db w))) = Some u
               \<and> u_Owned u
               \<and> ProcessWebhookPayment up e' (snd (ProcessWebhookPayment up e db w)) w
                   = ((Some p', Some err),
                      (snd (ProcessWebhookPayment up e db w))
                        \<lparr>payments := payments (snd (ProcessWebhookPayment up e db w)) @ [p']\<rparr>)
               \<and> p_Status p' = PaymentStatusFailed \<and> p_UserID p' = None))"
proof (intro conjI allI impI)
  from matchedCalls_at_most_one [OF assms, where up = up and code = code and calls = calls]
  show "length (filter (\<lambda>c. extractPaymentCode up (w_Content (snd c)) = Inr code)
                  (matchedCalls up db calls)) \<le> 1"
    by (simp split: if_splits)
next
  fix p
  let ?db' = "snd (ProcessWebhookPayment up e db w)"
  assume a: "fst (ProcessWebhookPayment up e db w) = (Some p, None) \<and> fault_at e' = None"
  from ProcessWebhookPayment_success [where up = up and e = e and db = db and w = w and p = p] a
  obtain code user where s: "w_TransferAmount w = 5000000"
    "extractPaymentCode up (w_Content w) = Inr code"
    "FindOne (\<lambda>u. u_PaymentCode u = Some code) (users db) = Some user"
    "p_UserID p = Some (u_ID user)"
    "payment_sessions ?db'
       = fst (UpdateOne (sessionFilter code) (sessionUpdate (clock e 1)) (payment_sessions db))"
    "users ?db'
       = fst (UpdateOne (\<lambda>u. u_ID u = u_ID user) (userUpdate (clock e 1)) (users db))"
    by blast
  from s(3) have "user \<in> set (users db)" by (auto simp: FindOne_def find_Some_iff)
  from find_by_key_exists [OF this, of u_ID]
  obtain u0 where u0: "find (\<lambda>u. u_ID u = u_ID user) (users db) = Some u0" by auto
  then have "u_ID u0 = u_ID user" by (auto simp: find_Some_iff)
  then have "u_ID (userUpdate (clock e 1) u0) = u_ID user" by (simp add: userUpdate_def)
  from find_UpdateOne_same [OF u0, of "userUpdate (clock e 1)", OF this] s(6)
  have owned: "FindOne (\<lambda>u. u_ID u = u_ID user) (users ?db') = Some (userUpdate (clock e 1) u0)"
    by (simp add: FindOne_def)
  have st: "p_Status p = PaymentStatusProcessed"
    using a
    by (auto simp: ProcessWebhookPayment_def settlePayment_def savePayment_def Let_def
        split: if_splits option.splits sum.splits)
  from s(5) UpdateOne_consumes [OF assms, of code "clock e 1"]
  have np: "\<forall>s\<in>set (payment_sessions ?db'). \<not> sessionFilter code s" by simp
  from a have nf: "fault_at e' = None" by simp
  from settlePayment_no_pending [OF nf np, of "ToPayment (clock e' 0) w"]
  obtain err where "settlePayment e' ?db' (ToPayment (clock e' 0) w) code =
    ((Some ((ToPayment (clock e' 0) w)
        \<lparr>p_Status := PaymentStatusFailed, p_ProcessedAt := Some (clock e' 1)\<rparr>), Some err),
     ?db'\<lparr>payments := payments ?db'
        @ [(ToPayment (clock e' 0) w)
            \<lparr>p_Status := PaymentStatusFailed, p_ProcessedAt := Some (clock e' 1)\<rparr>]\<rparr>)"
    by blast
  with ProcessWebhookPayment_parsed [OF s(1,2), where e = e' and db = ?db'] owned st s(4)
  show "\<exists>uid u p' err.
               p_Status p = PaymentStatusProcessed \<and> p_UserID p = Some uid
               \<and> FindOne (\<lambda>u. u_ID u = uid) (users ?db') = Some u
               \<and> u_Owned u
               \<and> ProcessWebhookPayment up e' ?db' w
                   = ((Some p', Some err), ?db'\<lparr>payments := payments ?db' @ [p']\<rparr>)
               \<and> p_Status p' = PaymentStatusFailed \<and> p_UserID p' = None"
    by (simp add: userUpdate_def ToPayment_def)
qed

text \<open>
  The scenario: the paying webhook delivered twice.
\<close>

theorem C3_witness:
  "distinct (map s_PaymentCode (payment_sessions exDb1))
   \<and> fst (ProcessWebhookPayment exUpper exPayEnv exDb1 exWebhook)
       = (Some ((ToPayment 2000 exWebhook)\<lparr>p_Status := PaymentStatusProcessed,
                  p_UserID := Some 1, p_ProcessedAt := Some 2001\<rparr>), None)
   \<and> fault_at exLateEnv = None
   \<and> length (filter (\<lambda>c. extractPaymentCode exUpper (w_Content (snd c)) = Inr ''AB12CD34'')
        (matchedCalls exUpper exDb1 [(exPayEnv, exWebhook), (exLateEnv, exWebhook)])) \<le> 1
   \<and> (\<exists>uid u p' err.
          FindOne (\<lambda>u. u_ID u = uid) (users (snd (ProcessWebhookPayment exUpper exPayEnv exDb1 exWebhook)))
            = Some u
        \<and> u_Owned u
        \<and> ProcessWebhookPayment exUpper exLateEnv (snd (ProcessWebhookPayment exUpper exPayEnv exDb1 exWebhook))
             exWebhook
            = ((Some p', Some err),
               (snd (ProcessWebhookPayment exUpper exPayEnv exDb1 exWebhook))
                 \<lparr>payments := payments (snd (ProcessWebhookPayment exUpper exPayEnv exDb1 exWebhook))
                    @ [p']\<rparr>)
        \<and> p_Status p' = PaymentStatusFailed \<and> p_UserID p' = None)"
proof -
  have d: "distinct (map s_PaymentCode (payment_sessions exDb1))"
    by (simp add: ex_defs)
  have f: "fst (ProcessWebhookPayment exUpper exPayEnv exDb1 exWebhook)
       = (Some ((ToPayment 2000 exWebhook)\<lparr>p_Status := PaymentStatusProcessed,
                  p_UserID := Some 1, p_ProcessedAt := Some 2001\<rparr>), None)"
    by (simp add: ex_paid)
  have n: "fault_at exLateEnv = None" by (simp add: ex_defs)
  note c3 = C3_duplicate_delivery_idempotent [OF d, where up = exUpper
      and code = "''AB12CD34''" and calls = "[(exPayEnv, exWebhook), (exLateEnv, exWebhook)]"
      and e = exPayEnv and w = exWebhook and e' = exLateEnv]
  from c3 have one: "length (filter (\<lambda>c. extractPaymentCode exUpper (w_Content (snd c)) = Inr ''AB12CD34'')
        (matchedCalls exUpper exDb1 [(exPayEnv, exWebhook), (exLateEnv, exWebhook)])) \<le> 1"
    by (rule conjunct1)
  from c3 f n have two: "\<exists>uid u p' err.
          FindOne (\<lambda>u. u_ID u = uid) (users (snd (ProcessWebhookPayment exUpper exPayEnv exDb1 exWebhook)))
            = Some u
        \<and> u_Owned u
        \<and> ProcessWebhookPayment exUpper exLateEnv (snd (ProcessWebhookPayment exUpper exPayEnv exDb1 exWebhook))
             exWebhook
            = ((Some p', Some err),
               (snd (ProcessWebhookPayment exUpper exPayEnv exDb1 exWebhook))
                 \<lparr>payments := payments (snd (ProcessWebhookPayment exUpper exPayEnv exDb1 exWebhook))
                    @ [p']\<rparr>)
        \<and> p_Status p' = PaymentStatusFailed \<and> p_UserID p' = None"
    by blast
  from d f n one two show ?thesis by (intro conjI)
qed

subsection \<open>C4: the order of classification\<close>

text \<open>
  Claim C4, as the code has it. When no store operation fails: if the transferred
  amount is not 5,000,000 the resolution is Ignored whatever the content is, and only
  the ledger changes; otherwise, if the upper-cased content does not contain ATMT, or
  fewer than 8 bytes of the upper-cased content follow the first occurrence of ATMT,
  the resolution is Ignored; otherwise the code used for the lookup is the 8 bytes
  that follow the first occurrence of ATMT in the upper-cased content, with no other
  validation, and it is used as follows. If no user holds it as pending code the
  resolution is Failed, with the error naming that code; if the first user holding it
  is banned the resolution is Failed; if no Pending session carries it the resolution
  is Failed, with the error naming that code; otherwise the first Pending session
  carrying it is completed, the user found is granted the product and the resolution
  is Processed, linked to that user. The code is read from the upper-cased content,
  not from the content as received: the counterexample below shows a lookup with a
  code that differs from the characters received.
\<close>

theorem C4_classification_order:
  assumes "fault_at e = None"
  shows "(w_TransferAmount w \<noteq> 5000000 \<longrightarrow>
            (\<exists>p. ProcessWebhookPayment up e db w =
                   ((Some p, Some (IncorrectAmount (w_TransferAmount w))),
                    db\<lparr>payments := payments db @ [p]\<rparr>)
               \<and> p_Status p = PaymentStatusIgnored))
       \<and> (w_TransferAmount w = 5000000 \<longrightarrow>
            (strings_Index (strings_ToUpper up (w_Content w)) ''ATMT'' = None
             \<or> (\<exists>i. strings_Index (strings_ToUpper up (w_Content w)) ''ATMT'' = Some i
                    \<and> length (strings_ToUpper up (w_Content w)) - (i + 4) < 8)) \<longrightarrow>
            (\<exists>p err. ProcessWebhookPayment up e db w =
                   ((Some p, Some err), db\<lparr>payments := payments db @ [p]\<rparr>)
               \<and> p_Status p = PaymentStatusIgnored))
       \<and> (w_TransferAmount w = 5000000 \<longrightarrow>
            (\<forall>i code. strings_Index (strings_ToUpper up (w_Content w)) ''ATMT'' = Some i
                 \<and> 8 \<le> length (strings_ToUpper up (w_Content w)) - (i + 4)
                 \<and> code = take 8 (drop (i + 4) (strings_ToUpper up (w_Content w))) \<longrightarrow>
               (FindOne (\<lambda>u. u_PaymentCode u = Some code) (users db) = None \<longrightarrow>
                  (\<exists>p. ProcessWebhookPayment up e db w =
                         ((Some p, Some (NoUserWithCode code)),
                          db\<lparr>payments := payments db @ [p]\<rparr>)
                     \<and> p_Status p = PaymentStatusFailed))
             \<and> (\<forall>user. FindOne (\<lambda>u. u_PaymentCode u = Some code) (users db) = Some user
                     \<and> u_IsBanned user \<longrightarrow>
                  (\<exists>p. ProcessWebhookPayment up e db w =
                         ((Some p, Some (UserIsBanned (u_Email user))),
                          db\<lparr>payments := payments db @ [p]\<rparr>)
                     \<and> p_Status p = PaymentStatusFailed))
             \<and> (\<forall>user. FindOne (\<lambda>u. u_PaymentCode u = Some code) (users db) = Some user
                     \<and> \<not> u_IsBanned user
                     \<and> (\<forall>s\<in>set (payment_sessions db).
                           \<not> (s_PaymentCode s = code \<and> s_Status s = PaymentStatusPending))
                     \<longrightarrow>
                  (\<exists>p. ProcessWebhookPayment up e db w =
                         ((Some p, Some (NoPendingSession code)),
                          db\<lparr>payments := payments db @ [p]\<rparr>)
                     \<and> p_Status p = PaymentStatusFailed))
             \<and> (\<forall>user. FindOne (\<lambda>u. u_PaymentCode u = Some code) (users db) = Some user
                     \<and> \<not> u_IsBanned user
                     \<and> (\<exists>s\<in>set (payment_sessions db).
                           s_PaymentCode s = code \<and> s_Status s = PaymentStatusPending)
                     \<longrightarrow>
                  (\<exists>p. ProcessWebhookPayment up e db w =
                         ((Some p, None),
                          db\<lparr>payment_sessions :=
                               fst (UpdateOne
                                 (\<lambda>s. s_PaymentCode s = code
                                        \<and> s_Status s = PaymentStatusPending)
                                 (\<lambda>s. s\<lparr>s_Status := PaymentStatusCompleted,
                                          s_CompletedAt := Some (clock e 1)\<rparr>)
                                 (payment_sessions db)),
                             users :=
                               fst (UpdateOne (\<lambda>u. u_ID u = u_ID user)
                                 (\<lambda>u. u\<lparr>u_Owned := True, u_UpdatedAt := clock e 1,
                                          u_PaymentCode := None\<rparr>)
                                 (users db)),
                             payments := payments db @ [p]\<rparr>)
                     \<and> p_Status p = PaymentStatusProcessed
                     \<and> p_UserID p = Some (u_ID user)))))"
proof (intro conjI impI allI)
  assume "w_TransferAmount w \<noteq> 5000000"
  from ProcessWebhookPayment_amount [OF assms this, where up = up and db = db]
  show "\<exists>p. ProcessWebhookPayment up e db w =
               ((Some p, Some (IncorrectAmount (w_TransferAmount w))),
                db\<lparr>payments := payments db @ [p]\<rparr>)
           \<and> p_Status p = PaymentStatusIgnored"
    by simp
next
  assume amt: "w_TransferAmount w = 5000000"
    and bad: "strings_Index (strings_ToUpper up (w_Content w)) ''ATMT'' = None
       \<or> (\<exists>i. strings_Index (strings_ToUpper up (w_Content w)) ''ATMT'' = Some i
              \<and> length (strings_ToUpper up (w_Content w)) - (i + 4) < 8)"
  from bad obtain err where "extractPaymentCode up (w_Content w) = Inl err"
  proof
    assume "strings_Index (strings_ToUpper up (w_Content w)) ''ATMT'' = None"
    from extractPaymentCode_absent [OF this] that show ?thesis by blast
  next
    assume "\<exists>i. strings_Index (strings_ToUpper up (w_Content w)) ''ATMT'' = Some i
              \<and> length (strings_ToUpper up (w_Content w)) - (i + 4) < 8"
    then obtain i where i: "strings_Index (strings_ToUpper up (w_Content w)) ''ATMT'' = Some i"
      "length (strings_ToUpper up (w_Content w)) < i + 12" by auto
    from extractPaymentCode_short [OF i] that show ?thesis by blast
  qed
  from ProcessWebhookPayment_unparsed [OF assms amt this, where db = db]
  show "\<exists>p err. ProcessWebhookPayment up e db w =
               ((Some p, Some err), db\<lparr>payments := payments db @ [p]\<rparr>)
           \<and> p_Status p = PaymentStatusIgnored"
    by simp
next
  fix i code
  assume amt: "w_TransferAmount w = 5000000"
    and found: "strings_Index (strings_ToUpper up (w_Content w)) ''ATMT'' = Some i
                 \<and> 8 \<le> length (strings_ToUpper up (w_Content w)) - (i + 4)
                 \<and> code = take 8 (drop (i + 4) (strings_ToUpper up (w_Content w)))"
    and none: "FindOne (\<lambda>u. u_PaymentCode u = Some code) (users db) = None"
  from settlePayment_no_user [OF assms none, of "ToPayment (clock e 0) w"]
    ProcessWebhookPayment_located [OF amt found, where e = e and db = db]
  show "\<exists>p. ProcessWebhookPayment up e db w =
           ((Some p, Some (NoUserWithCode code)), db\<lparr>payments := payments db @ [p]\<rparr>)
       \<and> p_Status p = PaymentStatusFailed"
    by simp
next
  fix i code user
  assume amt: "w_TransferAmount w = 5000000"
    and found: "strings_Index (strings_ToUpper up (w_Content w)) ''ATMT'' = Some i
                 \<and> 8 \<le> length (strings_ToUpper up (w_Content w)) - (i + 4)
                 \<and> code = take 8 (drop (i + 4) (strings_ToUpper up (w_Content w)))"
    and "FindOne (\<lambda>u. u_PaymentCode u = Some code) (users db) = Some user
        \<and> u_IsBanned user"
  then have u: "FindOne (\<lambda>u. u_PaymentCode u = Some code) (users db) = Some user"
    and b: "u_IsBanned user" by simp_all
  from settlePayment_banned [OF assms u b, of "ToPayment (clock e 0) w"]
    ProcessWebhookPayment_located [OF amt found, where e = e and db = db]
  show "\<exists>p. ProcessWebhookPayment up e db w =
           ((Some p, Some (UserIsBanned (u_Email user))),
            db\<lparr>payments := payments db @ [p]\<rparr>)
       \<and> p_Status p = PaymentStatusFailed"
    by simp
next
  fix i code user
  assume amt: "w_TransferAmount w = 5000000"
    and found: "strings_Index (strings_ToUpper up (w_Content w)) ''ATMT'' = Some i
                 \<and> 8 \<le> length (strings_ToUpper up (w_Content w)) - (i + 4)
                 \<and> code = take 8 (drop (i + 4) (strings_ToUpper up (w_Content w)))"
    and "FindOne (\<lambda>u. u_PaymentCode u = Some code) (users db) = Some user
        \<and> \<not> u_IsBanned user
        \<and> (\<forall>s\<in>set (payment_sessions db).
              \<not> (s_PaymentCode s = code \<and> s_Status s = PaymentStatusPending))"
  then have u: "FindOne (\<lambda>u. u_PaymentCode u = Some code) (users db) = Some user"
    and b: "\<not> u_IsBanned user"
    and n: "\<forall>s\<in>set (payment_sessions db). \<not> sessionFilter code s"
    by (simp_all add: sessionFilter_def)
  from settlePayment_no_session [OF assms u b n, of "ToPayment (clock e 0) w"]
    ProcessWebhookPayment_located [OF amt found, where e = e and db = db]
  show "\<exists>p. ProcessWebhookPayment up e db w =
           ((Some p, Some (NoPendingSession code)), db\<lparr>payments := payments db @ [p]\<rparr>)
       \<and> p_Status p = PaymentStatusFailed"
    by simp
next
  fix i code user
  assume amt: "w_TransferAmount w = 5000000"
    and found: "strings_Index (strings_ToUpper up (w_Content w)) ''ATMT'' = Some i
                 \<and> 8 \<le> length (strings_ToUpper up (w_Content w)) - (i + 4)
                 \<and> code = take 8 (drop (i + 4) (strings_ToUpper up (w_Content w)))"
    and "FindOne (\<lambda>u. u_PaymentCode u = Some code) (users db) = Some user
        \<and> \<not> u_IsBanned user
        \<and> (\<exists>s\<in>set (payment_sessions db).
              s_PaymentCode s = code \<and> s_Status s = PaymentStatusPending)"
  then have u: "FindOne (\<lambda>u. u_PaymentCode u = Some code) (users db) = Some user"
    and b: "\<not> u_IsBanned user"
    and m: "\<exists>s\<in>set (payment_sessions db). sessionFilter code s"
    by (simp_all add: sessionFilter_def)
  from settlePayment_processed [OF assms u b m, of "ToPayment (clock e 0) w"]
    ProcessWebhookPayment_located [OF amt found, where e = e and db = db]
  show "\<exists>p. ProcessWebhookPayment up e db w =
           ((Some p, None),
            db\<lparr>payment_sessions :=
                 fst (UpdateOne
                   (\<lambda>s. s_PaymentCode s = code \<and> s_Status s = PaymentStatusPending)
                   (\<lambda>s. s\<lparr>s_Status := PaymentStatusCompleted,
                            s_CompletedAt := Some (clock e 1)\<rparr>)
                   (payment_sessions db)),
               users :=
                 fst (UpdateOne (\<lambda>u. u_ID u = u_ID user)
                   (\<lambda>u. u\<lparr>u_Owned := True, u_UpdatedAt := clock e 1,
                            u_PaymentCode := None\<rparr>)
                   (users db)),
               payments := payments db @ [p]\<rparr>)
       \<and> p_Status p = PaymentStatusProcessed
       \<and> p_UserID p = Some (u_ID user)"
    by (simp add: sessionFilter_fun sessionUpdate_fun userUpdate_fun)
qed

text \<open>
  Seven calls: a wrong amount with a valid code embedded, no marker, a marker followed
  by four characters only, the paying webhook, and the same webhook when no user holds
  the code, when the user is banned, and when the session is already Completed.
\<close>

theorem C4_witness:
  "fault_at exPayEnv = None
   \<and> w_TransferAmount exWrongAmount \<noteq> 5000000
   \<and> extractPaymentCode exUpper (w_Content exWrongAmount) = Inr ''AB12CD34''
   \<and> (\<exists>p. ProcessWebhookPayment exUpper exPayEnv exDb1 exWrongAmount =
            ((Some p, Some (IncorrectAmount (w_TransferAmount exWrongAmount))),
             exDb1\<lparr>payments := payments exDb1 @ [p]\<rparr>)
         \<and> p_Status p = PaymentStatusIgnored)
   \<and> w_TransferAmount exNoMarker = 5000000
   \<and> strings_Index (strings_ToUpper exUpper (w_Content exNoMarker)) ''ATMT'' = None
   \<and> (\<exists>p err. ProcessWebhookPayment exUpper exPayEnv exDb1 exNoMarker =
            ((Some p, Some err), exDb1\<lparr>payments := payments exDb1 @ [p]\<rparr>)
         \<and> p_Status p = PaymentStatusIgnored)
   \<and> w_TransferAmount exShortCode = 5000000
   \<and> strings_Index (strings_ToUpper exUpper (w_Content exShortCode)) ''ATMT'' = Some 4
   \<and> length (strings_ToUpper exUpper (w_Content exShortCode)) - (4 + 4) < 8
   \<and> (\<exists>p err. ProcessWebhookPayment exUpper exPayEnv exDb1 exShortCode =
            ((Some p, Some err), exDb1\<lparr>payments := payments exDb1 @ [p]\<rparr>)
         \<and> p_Status p = PaymentStatusIgnored)
   \<and> w_TransferAmount exWebhook = 5000000
   \<and> strings_Index (strings_ToUpper exUpper (w_Content exWebhook)) ''ATMT'' = Some 0
   \<and> 8 \<le> length (strings_ToUpper exUpper (w_Content exWebhook)) - (0 + 4)
   \<and> ''AB12CD34'' = take 8 (drop (0 + 4) (strings_ToUpper exUpper (w_Content exWebhook)))
   \<and> FindOne (\<lambda>u. u_PaymentCode u = Some ''AB12CD34'') (users exDb1)
       = Some (exUser\<lparr>u_PaymentCode := Some ''AB12CD34'', u_UpdatedAt := 1000\<rparr>)
   \<and> (\<exists>p db'. ProcessWebhookPayment exUpper exPayEnv exDb1 exWebhook = ((Some p, None), db')
         \<and> p_Status p = PaymentStatusProcessed \<and> p_UserID p = Some 1)
   \<and> FindOne (\<lambda>u. u_PaymentCode u = Some ''AB12CD34'') (users exDb2) = None
   \<and> (\<exists>p. ProcessWebhookPayment exUpper exPayEnv exDb2 exWebhook =
            ((Some p, Some (NoUserWithCode ''AB12CD34'')),
             exDb2\<lparr>payments := payments exDb2 @ [p]\<rparr>)
         \<and> p_Status p = PaymentStatusFailed)
   \<and> FindOne (\<lambda>u. u_PaymentCode u = Some ''AB12CD34'') (users exBannedDb)
       = Some (exUser\<lparr>u_PaymentCode := Some ''AB12CD34'', u_IsBanned := True\<rparr>)
   \<and> (\<exists>p. ProcessWebhookPayment exUpper exPayEnv exBannedDb exWebhook =
            ((Some p, Some (UserIsBanned ''u@example.com'')),
             exBannedDb\<lparr>payments := payments exBannedDb @ [p]\<rparr>)
         \<and> p_Status p = PaymentStatusFailed)
   \<and> map s_Status (payment_sessions exCompletedDb) = [PaymentStatusCompleted]
   \<and> (\<exists>p. ProcessWebhookPayment exUpper exPayEnv exCompletedDb exWebhook =
            ((Some p, Some (NoPendingSession ''AB12CD34'')),
             exCompletedDb\<lparr>payments := payments exCompletedDb @ [p]\<rparr>)
         \<and> p_Status p = PaymentStatusFailed)"
proof -
  have n: "fault_at exPayEnv = None" by (simp add: ex_defs)
  have a: "w_TransferAmount exWrongAmount \<noteq> 5000000"
    "extractPaymentCode exUpper (w_Content exWrongAmount) = Inr ''AB12CD34''"
    by (simp_all add: webhook_defs ex_defs)
  have b: "w_TransferAmount exNoMarker = 5000000"
    "strings_Index (strings_ToUpper exUpper (w_Content exNoMarker)) ''ATMT'' = None"
    by (simp_all add: webhook_defs ex_defs)
  have c: "w_TransferAmount exShortCode = 5000000"
    "strings_Index (strings_ToUpper exUpper (w_Content exShortCode)) ''ATMT'' = Some 4"
    "length (strings_ToUpper exUpper (w_Content exShortCode)) - (4 + 4) < 8"
    by (simp_all add: webhook_defs ex_defs)
  have d: "w_TransferAmount exWebhook = 5000000"
    "strings_Index (strings_ToUpper exUpper (w_Content exWebhook)) ''ATMT'' = Some 0"
    "8 \<le> length (strings_ToUpper exUpper (w_Content exWebhook)) - (0 + 4)"
    "''AB12CD34'' = take 8 (drop (0 + 4) (strings_ToUpper exUpper (w_Content exWebhook)))"
    by (simp_all add: webhook_defs ex_defs)
  have u1: "FindOne (\<lambda>u. u_PaymentCode u = Some ''AB12CD34'') (users exDb1)
       = Some (exUser\<lparr>u_PaymentCode := Some ''AB12CD34'', u_UpdatedAt := 1000\<rparr>)"
    and nb1: "\<not> u_IsBanned (exUser\<lparr>u_PaymentCode := Some ''AB12CD34'', u_UpdatedAt := 1000\<rparr>)"
    and id1: "u_ID (exUser\<lparr>u_PaymentCode := Some ''AB12CD34'', u_UpdatedAt := 1000\<rparr>) = 1"
    and s1: "\<exists>s\<in>set (payment_sessions exDb1).
               s_PaymentCode s = ''AB12CD34'' \<and> s_Status s = PaymentStatusPending"
    by (simp_all add: FindOne_def ex_defs)
  have u2: "FindOne (\<lambda>u. u_PaymentCode u = Some ''AB12CD34'') (users exDb2) = None"
    by (simp add: FindOne_def ex_defs)
  have u3: "FindOne (\<lambda>u. u_PaymentCode u = Some ''AB12CD34'') (users exBannedDb)
       = Some (exUser\<lparr>u_PaymentCode := Some ''AB12CD34'', u_IsBanned := True\<rparr>)"
    and b3: "u_IsBanned (exUser\<lparr>u_PaymentCode := Some ''AB12CD34'', u_IsBanned := True\<rparr>)"
    and m3: "u_Email (exUser\<lparr>u_PaymentCode := Some ''AB12CD34'', u_IsBanned := True\<rparr>)
               = ''u@example.com''"
    by (simp_all add: FindOne_def ex_defs)
  have u4: "FindOne (\<lambda>u. u_PaymentCode u = Some ''AB12CD34'') (users exCompletedDb)
       = Some (exUser\<lparr>u_PaymentCode := Some ''AB12CD34'', u_UpdatedAt := 1000\<rparr>)"
    and s4: "\<forall>s\<in>set (payment_sessions exCompletedDb).
               \<not> (s_PaymentCode s = ''AB12CD34'' \<and> s_Status s = PaymentStatusPending)"
    and st4: "map s_Status (payment_sessions exCompletedDb) = [PaymentStatusCompleted]"
    by (simp_all add: FindOne_def ex_defs)
  from C4_classification_order [OF n, where up = exUpper and w = exWrongAmount and db = exDb1]
    a(1)
  have r1: "\<exists>p. ProcessWebhookPayment exUpper exPayEnv exDb1 exWrongAmount =
            ((Some p, Some (IncorrectAmount (w_TransferAmount exWrongAmount))),
             exDb1\<lparr>payments := payments exDb1 @ [p]\<rparr>)
         \<and> p_Status p = PaymentStatusIgnored"
    by blast
  from C4_classification_order [OF n, where up = exUpper and w = exNoMarker and db = exDb1] b
  have r2: "\<exists>p err. ProcessWebhookPayment exUpper exPayEnv exDb1 exNoMarker =
            ((Some p, Some err), exDb1\<lparr>payments := payments exDb1 @ [p]\<rparr>)
         \<and> p_Status p = PaymentStatusIgnored"
    by blast
  from C4_classification_order [OF n, where up = exUpper and w = exShortCode and db = exDb1] c
  have r3: "\<exists>p err. ProcessWebhookPayment exUpper exPayEnv exDb1 exShortCode =
            ((Some p, Some err), exDb1\<lparr>payments := payments exDb1 @ [p]\<rparr>)
         \<and> p_Status p = PaymentStatusIgnored"
    by blast
  note found = conjI [OF d(2) conjI [OF d(3) d(4)]]
  note settled = C4_classification_order [OF n, THEN conjunct2, THEN conjunct2, rule_format,
      where up = exUpper and w = exWebhook, OF d(1) found]
  from settled [where db = exDb1, THEN conjunct2, THEN conjunct2, THEN conjunct2, rule_format,
      OF conjI [OF u1 conjI [OF nb1 s1]]] id1
  have r4: "\<exists>p db'. ProcessWebhookPayment exUpper exPayEnv exDb1 exWebhook = ((Some p, None), db')
         \<and> p_Status p = PaymentStatusProcessed \<and> p_UserID p = Some 1"
    by auto
  from settled [where db = exDb2, THEN conjunct1, rule_format, OF u2]
  have r5: "\<exists>p. ProcessWebhookPayment exUpper exPayEnv exDb2 exWebhook =
            ((Some p, Some (NoUserWithCode ''AB12CD34'')),
             exDb2\<lparr>payments := payments exDb2 @ [p]\<rparr>)
         \<and> p_Status p = PaymentStatusFailed" .
  from settled [where db = exBannedDb, THEN conjunct2, THEN conjunct1, rule_format,
      OF conjI [OF u3 b3]] m3
  have r6: "\<exists>p. ProcessWebhookPayment exUpper exPayEnv exBannedDb exWebhook =
            ((Some p, Some (UserIsBanned ''u@example.com'')),
             exBannedDb\<lparr>payments := payments exBannedDb @ [p]\<rparr>)
         \<and> p_Status p = PaymentStatusFailed"
    by simp
  have nb4: "\<not> u_IsBanned (exUser\<lparr>u_PaymentCode := Some ''AB12CD34'', u_UpdatedAt := 1000\<rparr>)"
    by (simp add: ex_defs)
  from settled [where db = exCompletedDb, THEN conjunct2, THEN conjunct2, THEN conjunct1,
      rule_format, OF conjI [OF u4 conjI [OF nb4 s4]]]
  have r7: "\<exists>p. ProcessWebhookPayment exUpper exPayEnv exCompletedDb exWebhook =
            ((Some p, Some (NoPendingSession ''AB12CD34'')),
             exCompletedDb\<lparr>payments := payments exCompletedDb @ [p]\<rparr>)
         \<and> p_Status p = PaymentStatusFailed" .
  from n a r1 b r2 c r3 d u1 r4 u2 r5 u3 r6 st4 r7 show ?thesis by (intro conjI)
qed

text \<open>
  The claim as stated is false. The content is atmtab12cd34: the marker is found
  without regard to case and the 8 characters that follow it, as received, are
  ab12cd34. A user holds exactly that pending code and a Pending session carries it.
  The lookup is made with AB12CD34, the bytes of the upper-cased content, so no user is
  found and the resolution is Failed.
\<close>

theorem C4_counterexample:
  "w_TransferAmount exLowerWebhook = 5000000
   \<and> w_Content exLowerWebhook = ''atmtab12cd34''
   \<and> strings_Index (strings_ToUpper exUpper (w_Content exLowerWebhook)) ''ATMT'' = Some 0
   \<and> take 8 (drop 4 (w_Content exLowerWebhook)) = ''ab12cd34''
   \<and> map u_PaymentCode (users exLowerDb) = [Some ''ab12cd34'']
   \<and> map u_IsBanned (users exLowerDb) = [False]
   \<and> map s_PaymentCode (payment_sessions exLowerDb) = [''ab12cd34'']
   \<and> map s_Status (payment_sessions exLowerDb) = [PaymentStatusPending]
   \<and> snd (fst (ProcessWebhookPayment exUpper exPayEnv exLowerDb exLowerWebhook))
       = Some (NoUserWithCode ''AB12CD34'')
   \<and> map_option p_Status (fst (fst (ProcessWebhookPayment exUpper exPayEnv exLowerDb
        exLowerWebhook))) = Some PaymentStatusFailed
   \<and> map s_Status (payment_sessions (snd (ProcessWebhookPayment exUpper exPayEnv exLowerDb
        exLowerWebhook))) = [PaymentStatusPending]
   \<and> ''AB12CD34'' \<noteq> ''ab12cd34''"
  by (simp add: webhook_defs ex_defs)

subsection \<open>C5: one ledger record for each call\<close>

text \<open>
  Claim C5. When no store operation fails, a call appends exactly one record to the
  ledger, on every branch; the record is the one returned, it carries the twelve
  fields of the inbound payload, its status is Ignored, Failed or Processed and not
  Pending, its processing time is set, and it links a user exactly when its status is
  Processed.
\<close>

theorem C5_one_ledger_record_per_call:
  assumes "fault_at e = None"
  shows "\<exists>p. fst (fst (ProcessWebhookPayment up e db w)) = Some p
           \<and> payments (snd (ProcessWebhookPayment up e db w)) = payments db @ [p]
           \<and> p_SepayID p = w_ID w \<and> p_Gateway p = w_Gateway w
           \<and> p_TransactionDate p = w_TransactionDate w
           \<and> p_AccountNumber p = w_AccountNumber w \<and> p_Code p = w_Code w
           \<and> p_Content p = w_Content w \<and> p_TransferType p = w_TransferType w
           \<and> p_TransferAmount p = w_TransferAmount w \<and> p_Accumulated p = w_Accumulated w
           \<and> p_SubAccount p = w_SubAccount w \<and> p_ReferenceCode p = w_ReferenceCode w
           \<and> p_Description p = w_Description w
           \<and> p_Status p \<in> {PaymentStatusIgnored, PaymentStatusFailed, PaymentStatusProcessed}
           \<and> p_Status p \<noteq> PaymentStatusPending
           \<and> p_ProcessedAt p = Some (clock e 1)
           \<and> (p_UserID p \<noteq> None \<longleftrightarrow> p_Status p = PaymentStatusProcessed)"
proof (cases "w_TransferAmount w = 5000000")
  case False
  from ProcessWebhookPayment_amount [OF assms False, where up = up and db = db] show ?thesis
    by (simp add: ToPayment_def)
next
  case amt: True
  show ?thesis
  proof (cases "extractPaymentCode up (w_Content w)")
    case (Inl err)
    from ProcessWebhookPayment_unparsed [OF assms amt Inl, where db = db] show ?thesis
      by (simp add: ToPayment_def)
  next
    case (Inr code)
    from settlePayment_ledger [OF assms, of db "ToPayment (clock e 0) w" code]
    obtain p out where p: "fst (settlePayment e db (ToPayment (clock e 0) w) code) = (Some p, out)"
      "payments (snd (settlePayment e db (ToPayment (clock e 0) w) code)) = payments db @ [p]"
      "p = (ToPayment (clock e 0) w)
             \<lparr>p_Status := PaymentStatusFailed, p_ProcessedAt := Some (clock e 1)\<rparr>
       \<or> (\<exists>uid. p = (ToPayment (clock e 0) w)
             \<lparr>p_Status := PaymentStatusProcessed, p_UserID := Some uid,
               p_ProcessedAt := Some (clock e 1)\<rparr>)"
      by blast
    from p(3) have "p_SepayID p = w_ID w \<and> p_Gateway p = w_Gateway w
           \<and> p_TransactionDate p = w_TransactionDate w
           \<and> p_AccountNumber p = w_AccountNumber w \<and> p_Code p = w_Code w
           \<and> p_Content p = w_Content w \<and> p_TransferType p = w_TransferType w
           \<and> p_TransferAmount p = w_TransferAmount w \<and> p_Accumulated p = w_Accumulated w
           \<and> p_SubAccount p = w_SubAccount w \<and> p_ReferenceCode p = w_ReferenceCode w
           \<and> p_Description p = w_Description w
           \<and> p_Status p \<in> {PaymentStatusIgnored, PaymentStatusFailed, PaymentStatusProcessed}
           \<and> p_Status p \<noteq> PaymentStatusPending
           \<and> p_ProcessedAt p = Some (clock e 1)
           \<and> (p_UserID p \<noteq> None \<longleftrightarrow> p_Status p = PaymentStatusProcessed)"
      by (auto simp: ToPayment_def)
    with p(1,2) ProcessWebhookPayment_parsed [OF amt Inr, where e = e and db = db] show ?thesis
      by simp
  qed
qed

text \<open>
  The paying webhook and the webhook without the marker.
\<close>

theorem C5_witness:
  "fault_at exPayEnv = None
   \<and> (\<exists>p. fst (fst (ProcessWebhookPayment exUpper exPayEnv exDb1 exWebhook)) = Some p
           \<and> payments (snd (ProcessWebhookPayment exUpper exPayEnv exDb1 exWebhook))
               = payments exDb1 @ [p]
           \<and> p_Content p = w_Content exWebhook
           \<and> p_TransferAmount p = w_TransferAmount exWebhook
           \<and> p_Status p = PaymentStatusProcessed
           \<and> p_ProcessedAt p = Some 2001
           \<and> p_UserID p = Some 1)
   \<and> (\<exists>p. fst (fst (ProcessWebhookPayment exUpper exPayEnv exDb1 exNoMarker)) = Some p
           \<and> payments (snd (ProcessWebhookPayment exUpper exPayEnv exDb1 exNoMarker))
               = payments exDb1 @ [p]
           \<and> p_Status p = PaymentStatusIgnored
           \<and> p_UserID p = None)"
proof -
  have n: "fault_at exPayEnv = None" by (simp add: ex_defs)
  from C5_one_ledger_record_per_call [OF n, where up = exUpper and db = exDb1 and w = exWebhook]
  obtain p where p: "fst (fst (ProcessWebhookPayment exUpper exPayEnv exDb1 exWebhook)) = Some p"
    "payments (snd (ProcessWebhookPayment exUpper exPayEnv exDb1 exWebhook)) = payments exDb1 @ [p]"
    "p_Content p = w_Content exWebhook" "p_TransferAmount p = w_TransferAmount exWebhook"
    by blast
  from p(1) have "p_Status p = PaymentStatusProcessed \<and> p_ProcessedAt p = Some 2001
      \<and> p_UserID p = Some 1"
    by (auto simp: ex_paid)
  with p have r1: "\<exists>p. fst (fst (ProcessWebhookPayment exUpper exPayEnv exDb1 exWebhook)) = Some p
           \<and> payments (snd (ProcessWebhookPayment exUpper exPayEnv exDb1 exWebhook))
               = payments exDb1 @ [p]
           \<and> p_Content p = w_Content exWebhook
           \<and> p_TransferAmount p = w_TransferAmount exWebhook
           \<and> p_Status p = PaymentStatusProcessed
           \<and> p_ProcessedAt p = Some 2001
           \<and> p_UserID p = Some 1"
    by blast
  have r2: "\<exists>p. fst (fst (ProcessWebhookPayment exUpper exPayEnv exDb1 exNoMarker)) = Some p
           \<and> payments (snd (ProcessWebhookPayment exUpper exPayEnv exDb1 exNoMarker))
               = payments exDb1 @ [p]
           \<and> p_Status p = PaymentStatusIgnored
           \<and> p_UserID p = None"
    by (simp add: webhook_defs ex_defs)
  from n r1 r2 show ?thesis by (intro conjI)
qed

subsection \<open>C6: generated codes and their uniqueness\<close>

text \<open>
  Claim C6. A generated code has exactly 8 characters, all from the alphabet of the
  36 symbols A to Z and 0 to 9. A session that is created carries a code that no
  stored session, of whatever status, carries. Hence over any sequential history of
  requests that starts from pairwise distinct codes (for instance from no session at
  all), the stored codes stay pairwise distinct.
\<close>

theorem C6_payment_codes_unique:
  "length (generatePaymentCode r) = 8
   \<and> set (generatePaymentCode r) \<subseteq> set charset
   \<and> charset = ''ABCDEFGHIJKLMNOPQRSTUVWXYZ0123456789'' \<and> length charset = 36
   \<and> (\<forall>session db'. InitiatePayment e db userID = Some (Inr session, db') \<longrightarrow>
        s_PaymentCode session \<notin> set (map s_PaymentCode (payment_sessions db))
        \<and> payment_sessions db' = payment_sessions db @ [session])
   \<and> (\<forall>db'. distinct (map s_PaymentCode (payment_sessions db)) \<longrightarrow> run up db rs = Some db' \<longrightarrow>
        distinct (map s_PaymentCode (payment_sessions db')))"
proof (intro conjI allI impI)
  show "length (generatePaymentCode r) = 8"
    by (simp add: generatePaymentCode_def rand_Read_def)
  show "set (generatePaymentCode r) \<subseteq> set charset"
  proof -
    have "unat (x mod of_nat (length charset)) < length charset" for x :: byte
    proof -
      have "x mod 36 < 36" by (rule word_mod_less_divisor) simp
      then have "unat (x mod 36) < unat (36 :: byte)" by (simp only: word_less_nat_alt)
      then show ?thesis by (simp add: charset_def)
    qed
    then show ?thesis by (auto simp: generatePaymentCode_def)
  qed
  show "charset = ''ABCDEFGHIJKLMNOPQRSTUVWXYZ0123456789''" by (simp add: charset_def)
  show "length charset = 36" by (simp add: charset_def)
next
  fix session db'
  assume a: "InitiatePayment e db userID = Some (Inr session, db')"
  then have "payment_sessions db' = payment_sessions db @ [session]
      \<and> (\<exists>c. uniquePaymentCode (fault_at e) 1 (rand_reads e) (payment_sessions db) = Some (Inr c)
             \<and> s_PaymentCode session = fst c)"
    by (auto simp: InitiatePayment_def Let_def InsertOne_def
        split: if_splits option.splits sum.splits prod.splits)
  then obtain c m where "payment_sessions db' = payment_sessions db @ [session]"
    "uniquePaymentCode (fault_at e) 1 (rand_reads e) (payment_sessions db) = Some (Inr (c, m))"
    "s_PaymentCode session = c" by auto
  with uniquePaymentCode_fresh [OF this(2)]
  show "s_PaymentCode session \<notin> set (map s_PaymentCode (payment_sessions db))"
    "payment_sessions db' = payment_sessions db @ [session]" by simp_all
next
  fix db'
  assume "distinct (map s_PaymentCode (payment_sessions db))" "run up db rs = Some db'"
  from run_codes_distinct [OF this(2,1)]
  show "distinct (map s_PaymentCode (payment_sessions db'))" .
qed

text \<open>
  The second creation of the scenario: its first draw is the code already stored, so
  the loop draws again; the history of two creations and a payment keeps two sessions
  with distinct codes.
\<close>

theorem C6_witness:
  "InitiatePayment exEnv2 exDb1 1 = Some (Inr exSession2, exDb2)
   \<and> generatePaymentCode (hd (rand_reads exEnv2))
        \<in> set (map s_PaymentCode (payment_sessions exDb1))
   \<and> s_PaymentCode exSession2 \<notin> set (map s_PaymentCode (payment_sessions exDb1))
   \<and> payment_sessions exDb2 = payment_sessions exDb1 @ [exSession2]
   \<and> distinct (map s_PaymentCode (payment_sessions exDb0))
   \<and> run exUpper exDb0 exHistory = Some (snd (ProcessWebhookPayment exUpper exPayEnv exDb2 exWebhook))
   \<and> distinct (map s_PaymentCode
        (payment_sessions (snd (ProcessWebhookPayment exUpper exPayEnv exDb2 exWebhook))))
   \<and> length (payment_sessions (snd (ProcessWebhookPayment exUpper exPayEnv exDb2 exWebhook))) = 2"
proof -
  have c: "generatePaymentCode (hd (rand_reads exEnv2))
        \<in> set (map s_PaymentCode (payment_sessions exDb1))"
    by (simp add: initiate_defs ex_defs)
  have d: "distinct (map s_PaymentCode (payment_sessions exDb0))"
    by (simp add: ex_defs)
  have l: "length (payment_sessions (snd (ProcessWebhookPayment exUpper exPayEnv exDb2 exWebhook))) = 2"
    by (simp add: webhook_defs ex_defs)
  note c6 = C6_payment_codes_unique [where r = "[]" and e = exEnv2 and db = exDb1 and userID = 1
      and up = exUpper and rs = "[]"]
  from c6 ex_second_creation
  have r1: "s_PaymentCode exSession2 \<notin> set (map s_PaymentCode (payment_sessions exDb1))"
    "payment_sessions exDb2 = payment_sessions exDb1 @ [exSession2]"
    by blast+
  from C6_payment_codes_unique [where r = "[]" and e = exEnv and db = exDb0 and userID = 1
      and up = exUpper and rs = exHistory] d ex_history
  have r2: "distinct (map s_PaymentCode
        (payment_sessions (snd (ProcessWebhookPayment exUpper exPayEnv exDb2 exWebhook))))"
    by blast
  from ex_second_creation c r1 d ex_history r2 l show ?thesis by (intro conjI)
qed

subsection \<open>C7: the Expired status is never assigned\<close>

text \<open>
  Claim C7. A webhook call leaves every session as it is or takes it from Pending to
  Completed, setting its completion time; a session creation leaves the collection as
  it is or appends a Pending session; so over any sequential history every session
  with status Expired was already stored, with that status, at the start. The
  conditional update filters on code and Pending status only: a Pending session whose
  expiry time has passed when the webhook arrives is still taken to Completed.
\<close>

theorem C7_expired_status_never_assigned:
  "list_all2 (\<lambda>s s'. s' = s \<or> (s_Status s = PaymentStatusPending
        \<and> s' = s\<lparr>s_Status := PaymentStatusCompleted, s_CompletedAt := Some (clock e 1)\<rparr>))
     (payment_sessions db) (payment_sessions (snd (ProcessWebhookPayment up e db w)))
   \<and> (\<forall>res db'. InitiatePayment e db userID = Some (res, db') \<longrightarrow>
         payment_sessions db' = payment_sessions db
         \<or> (\<exists>s. payment_sessions db' = payment_sessions db @ [s]
                \<and> s_Status s = PaymentStatusPending))
   \<and> (\<forall>db'. run up db rs = Some db' \<longrightarrow>
         (\<forall>s\<in>set (payment_sessions db').
            s_Status s = PaymentStatusExpired \<longrightarrow> s \<in> set (payment_sessions db)))
   \<and> (\<forall>code user i.
         fault_at e = None \<and> w_TransferAmount w = 5000000
         \<and> extractPaymentCode up (w_Content w) = Inr code
         \<and> FindOne (\<lambda>u. u_PaymentCode u = Some code) (users db) = Some user
         \<and> \<not> u_IsBanned user
         \<and> i < length (payment_sessions db)
         \<and> s_PaymentCode (payment_sessions db ! i) = code
         \<and> s_Status (payment_sessions db ! i) = PaymentStatusPending
         \<and> (\<forall>j<i. \<not> sessionFilter code (payment_sessions db ! j))
         \<and> s_ExpiresAt (payment_sessions db ! i) < clock e 0 \<longrightarrow>
         payment_sessions (snd (ProcessWebhookPayment up e db w)) ! i
           = (payment_sessions db ! i)\<lparr>s_Status := PaymentStatusCompleted,
                                        s_CompletedAt := Some (clock e 1)\<rparr>)"
proof (intro conjI allI impI)
  show "list_all2 (\<lambda>s s'. s' = s \<or> (s_Status s = PaymentStatusPending
        \<and> s' = s\<lparr>s_Status := PaymentStatusCompleted, s_CompletedAt := Some (clock e 1)\<rparr>))
     (payment_sessions db) (payment_sessions (snd (ProcessWebhookPayment up e db w)))"
    by (rule ProcessWebhookPayment_steps)
next
  fix res db'
  assume "InitiatePayment e db userID = Some (res, db')"
  from InitiatePayment_sessions [OF this]
  show "payment_sessions db' = payment_sessions db
         \<or> (\<exists>s. payment_sessions db' = payment_sessions db @ [s]
                \<and> s_Status s = PaymentStatusPending)"
    by blast
next
  fix db'
  assume "run up db rs = Some db'"
  from run_expired [OF this]
  show "\<forall>s\<in>set (payment_sessions db').
          s_Status s = PaymentStatusExpired \<longrightarrow> s \<in> set (payment_sessions db)"
    by blast
next
  fix code user i
  assume a: "fault_at e = None \<and> w_TransferAmount w = 5000000
         \<and> extractPaymentCode up (w_Content w) = Inr code
         \<and> FindOne (\<lambda>u. u_PaymentCode u = Some code) (users db) = Some user
         \<and> \<not> u_IsBanned user
         \<and> i < length (payment_sessions db)
         \<and> s_PaymentCode (payment_sessions db ! i) = code
         \<and> s_Status (payment_sessions db ! i) = PaymentStatusPending
         \<and> (\<forall>j<i. \<not> sessionFilter code (payment_sessions db ! j))
         \<and> s_ExpiresAt (payment_sessions db ! i) < clock e 0"
  then have f: "sessionFilter code (payment_sessions db ! i)"
    by (simp add: sessionFilter_def)
  from a ProcessWebhookPayment_processed [where up = up and e = e and w = w and code = code and db = db and user = user and i = i, OF _ _ _ _ _ _ f]
  show "payment_sessions (snd (ProcessWebhookPayment up e db w)) ! i
           = (payment_sessions db ! i)\<lparr>s_Status := PaymentStatusCompleted,
                                        s_CompletedAt := Some (clock e 1)\<rparr>"
    by (simp add: sessionUpdate_def)
qed

text \<open>
  The first creation, the history of the scenario, and the paying webhook arriving
  long after the fifteen minutes of the session.
\<close>

theorem C7_witness:
  "InitiatePayment exEnv exDb0 1 = Some (Inr exSession, exDb1)
   \<and> payment_sessions exDb1 \<noteq> payment_sessions exDb0
   \<and> (\<exists>s. payment_sessions exDb1 = payment_sessions exDb0 @ [s]
          \<and> s_Status s = PaymentStatusPending)
   \<and> run exUpper exDb0 exHistory = Some (snd (ProcessWebhookPayment exUpper exPayEnv exDb2 exWebhook))
   \<and> PaymentStatusExpired
        \<notin> set (map s_Status
                 (payment_sessions (snd (ProcessWebhookPayment exUpper exPayEnv exDb2 exWebhook))))
   \<and> fault_at exLateEnv = None
   \<and> w_TransferAmount exWebhook = 5000000
   \<and> extractPaymentCode exUpper (w_Content exWebhook) = Inr ''AB12CD34''
   \<and> FindOne (\<lambda>u. u_PaymentCode u = Some ''AB12CD34'') (users exDb1)
       = Some (exUser\<lparr>u_PaymentCode := Some ''AB12CD34'', u_UpdatedAt := 1000\<rparr>)
   \<and> \<not> u_IsBanned (exUser\<lparr>u_PaymentCode := Some ''AB12CD34'', u_UpdatedAt := 1000\<rparr>)
   \<and> 0 < length (payment_sessions exDb1)
   \<and> payment_sessions exDb1 ! 0 = exSession
   \<and> s_PaymentCode exSession = ''AB12CD34''
   \<and> s_Status exSession = PaymentStatusPending
   \<and> s_ExpiresAt exSession < clock exLateEnv 0
   \<and> payment_sessions (snd (ProcessWebhookPayment exUpper exLateEnv exDb1 exWebhook)) ! 0
       = exSession\<lparr>s_Status := PaymentStatusCompleted,
                    s_CompletedAt := Some (clock exLateEnv 1)\<rparr>"
proof -
  have ne: "payment_sessions exDb1 \<noteq> payment_sessions exDb0"
    by (simp add: ex_defs)
  note c7 = C7_expired_status_never_assigned [where up = exUpper and e = exEnv and db = exDb0
      and w = exWebhook and userID = 1 and rs = exHistory]
  from c7 ex_first_creation ne
  have r1: "\<exists>s. payment_sessions exDb1 = payment_sessions exDb0 @ [s]
          \<and> s_Status s = PaymentStatusPending"
    by blast
  have "payment_sessions exDb0 = []" by (simp add: ex_defs)
  with c7 ex_history
  have "\<forall>s\<in>set (payment_sessions (snd (ProcessWebhookPayment exUpper exPayEnv exDb2 exWebhook))).
          s_Status s \<noteq> PaymentStatusExpired"
    by auto
  then have r2: "PaymentStatusExpired
        \<notin> set (map s_Status
                 (payment_sessions (snd (ProcessWebhookPayment exUpper exPayEnv exDb2 exWebhook))))"
    by auto
  have h: "fault_at exLateEnv = None"
    "w_TransferAmount exWebhook = 5000000"
    "extractPaymentCode exUpper (w_Content exWebhook) = Inr ''AB12CD34''"
    "FindOne (\<lambda>u. u_PaymentCode u = Some ''AB12CD34'') (users exDb1)
       = Some (exUser\<lparr>u_PaymentCode := Some ''AB12CD34'', u_UpdatedAt := 1000\<rparr>)"
    "\<not> u_IsBanned (exUser\<lparr>u_PaymentCode := Some ''AB12CD34'', u_UpdatedAt := 1000\<rparr>)"
    "0 < length (payment_sessions exDb1)"
    "payment_sessions exDb1 ! 0 = exSession"
    "s_PaymentCode exSession = ''AB12CD34''"
    "s_Status exSession = PaymentStatusPending"
    "s_ExpiresAt exSession < clock exLateEnv 0"
    by (simp_all add: ex_extract) (simp_all add: FindOne_def Minute_def ex_defs)
  from C7_expired_status_never_assigned [where up = exUpper and e = exLateEnv and db = exDb1
      and w = exWebhook and userID = 1 and rs = "[]"] h
  have r3: "payment_sessions (snd (ProcessWebhookPayment exUpper exLateEnv exDb1 exWebhook)) ! 0
       = exSession\<lparr>s_Status := PaymentStatusCompleted,
                    s_CompletedAt := Some (clock exLateEnv 1)\<rparr>"
    by simp
  from ex_first_creation ne r1 ex_history r2 h r3 show ?thesis by (intro conjI)
qed

subsection \<open>C8: the outcomes of InitiatePayment\<close>

text \<open>
  Claim C8. Suppose no store operation fails. Then InitiatePayment returns the error
  UserNotFound exactly when no user has the identifier, UserBanned exactly when the
  user is banned, and AlreadyOwned exactly when the user is not banned and owns the
  product. In every other case, once the random source delivers a code that no stored
  session carries (so that the code loop ends), it returns a session of that user
  with status Pending, amount 5,000,000, expiry 15 minutes after its creation time
  and no completion time, appends it to the session collection and writes its code
  into the user's pending-code field.
\<close>

theorem C8_InitiatePayment_outcomes:
  assumes "fault_at e = None"
  shows "((\<exists>db'. InitiatePayment e db userID = Some (Inl UserNotFound, db'))
            \<longleftrightarrow> FindOne (\<lambda>u. u_ID u = userID) (users db) = None)
       \<and> ((\<exists>db'. InitiatePayment e db userID = Some (Inl UserBanned, db'))
            \<longleftrightarrow> (\<exists>user. FindOne (\<lambda>u. u_ID u = userID) (users db) = Some user
                    \<and> u_IsBanned user))
       \<and> ((\<exists>db'. InitiatePayment e db userID = Some (Inl AlreadyOwned, db'))
            \<longleftrightarrow> (\<exists>user. FindOne (\<lambda>u. u_ID u = userID) (users db) = Some user
                    \<and> \<not> u_IsBanned user \<and> u_Owned user))
       \<and> (\<forall>user. FindOne (\<lambda>u. u_ID u = userID) (users db) = Some user
              \<and> \<not> u_IsBanned user \<and> \<not> u_Owned user
              \<and> (\<exists>r\<in>set (rand_reads e).
                    generatePaymentCode r \<notin> set (map s_PaymentCode (payment_sessions db)))
            \<longrightarrow>
            (\<exists>session db'. InitiatePayment e db userID = Some (Inr session, db')
               \<and> s_UserID session = userID
               \<and> s_Status session = PaymentStatusPending
               \<and> s_Amount session = 5000000
               \<and> s_CreatedAt session = clock e 0
               \<and> s_ExpiresAt session = s_CreatedAt session + 15 * Minute
               \<and> s_CompletedAt session = None
               \<and> payment_sessions db' = payment_sessions db @ [session]
               \<and> payments db' = payments db
               \<and> FindOne (\<lambda>u. u_ID u = userID) (users db')
                   = Some (user\<lparr>u_PaymentCode := Some (s_PaymentCode session),
                                u_UpdatedAt := clock e 0\<rparr>)))"
proof (cases "FindOne (\<lambda>u. u_ID u = userID) (users db)")
  case None
  with assms show ?thesis by (simp add: InitiatePayment_def)
next
  case (Some user)
  show ?thesis
  proof (cases "u_IsBanned user \<or> u_Owned user")
    case True
    with assms Some show ?thesis by (auto simp: InitiatePayment_def)
  next
    case False
    then have ok: "\<not> u_IsBanned user" "\<not> u_Owned user" by auto
    have created: "\<exists>session db'. InitiatePayment e db userID = Some (Inr session, db')
               \<and> s_UserID session = userID
               \<and> s_Status session = PaymentStatusPending
               \<and> s_Amount session = 5000000
               \<and> s_CreatedAt session = clock e 0
               \<and> s_ExpiresAt session = s_CreatedAt session + 15 * Minute
               \<and> s_CompletedAt session = None
               \<and> payment_sessions db' = payment_sessions db @ [session]
               \<and> payments db' = payments db
               \<and> FindOne (\<lambda>u. u_ID u = userID) (users db')
                   = Some (user\<lparr>u_PaymentCode := Some (s_PaymentCode session),
                                u_UpdatedAt := clock e 0\<rparr>)"
      if fuel: "\<exists>r\<in>set (rand_reads e).
                    generatePaymentCode r \<notin> set (map s_PaymentCode (payment_sessions db))"
    proof -
      from uniquePaymentCode_returns [OF fuel, of 1]
      obtain c m where cm:
        "uniquePaymentCode None 1 (rand_reads e) (payment_sessions db) = Some (Inr (c, m))"
        by blast
      have "find (\<lambda>u. u_ID u = userID)
              (fst (UpdateOne (\<lambda>u. u_ID u = userID)
                 (\<lambda>u. u\<lparr>u_PaymentCode := Some c, u_UpdatedAt := clock e 0\<rparr>) (users db)))
            = Some (user\<lparr>u_PaymentCode := Some c, u_UpdatedAt := clock e 0\<rparr>)"
      proof (rule find_UpdateOne_same)
        from Some show "find (\<lambda>u. u_ID u = userID) (users db) = Some user"
          by (simp add: FindOne_def)
        then show "u_ID (user\<lparr>u_PaymentCode := Some c, u_UpdatedAt := clock e 0\<rparr>) = userID"
          by (auto simp: find_Some_iff)
      qed
      with InitiatePayment_created [OF assms Some ok cm] show ?thesis
        by (simp add: FindOne_def)
    qed
    from InitiatePayment_validated [OF Some ok, of e] Some ok created show ?thesis
      by auto
  qed
qed

text \<open>
  The first creation of the scenario, and a request for an unknown user.
\<close>

theorem C8_witness:
  "fault_at exEnv = None
   \<and> hd (rand_reads exEnv) \<in> set (rand_reads exEnv)
   \<and> generatePaymentCode (hd (rand_reads exEnv))
        \<notin> set (map s_PaymentCode (payment_sessions exDb0))
   \<and> FindOne (\<lambda>u. u_ID u = 1) (users exDb0) = Some exUser
   \<and> \<not> u_IsBanned exUser \<and> \<not> u_Owned exUser
   \<and> (\<exists>session db'. InitiatePayment exEnv exDb0 1 = Some (Inr session, db')
         \<and> s_UserID session = 1
         \<and> s_Status session = PaymentStatusPending
         \<and> s_Amount session = 5000000
         \<and> s_CreatedAt session = clock exEnv 0
         \<and> s_ExpiresAt session = s_CreatedAt session + 15 * Minute
         \<and> s_CompletedAt session = None
         \<and> payment_sessions db' = payment_sessions exDb0 @ [session]
         \<and> payments db' = payments exDb0
         \<and> FindOne (\<lambda>u. u_ID u = 1) (users db')
             = Some (exUser\<lparr>u_PaymentCode := Some (s_PaymentCode session),
                            u_UpdatedAt := clock exEnv 0\<rparr>))
   \<and> FindOne (\<lambda>u. u_ID u = 99) (users exDb0) = None
   \<and> (\<exists>db'. InitiatePayment exEnv exDb0 99 = Some (Inl UserNotFound, db'))"
proof -
  have h: "fault_at exEnv = None"
    "hd (rand_reads exEnv) \<in> set (rand_reads exEnv)"
    "generatePaymentCode (hd (rand_reads exEnv))
        \<notin> set (map s_PaymentCode (payment_sessions exDb0))"
    "FindOne (\<lambda>u. u_ID u = 1) (users exDb0) = Some exUser"
    "\<not> u_IsBanned exUser" "\<not> u_Owned exUser"
    by (simp_all add: FindOne_def ex_defs)
  have nf: "FindOne (\<lambda>u. u_ID u = 99) (users exDb0) = None"
    by (simp add: FindOne_def ex_defs)
  from h(2,3) have fuel: "\<exists>r\<in>set (rand_reads exEnv).
      generatePaymentCode r \<notin> set (map s_PaymentCode (payment_sessions exDb0))"
    by blast
  from C8_InitiatePayment_outcomes [OF h(1), where db = exDb0 and userID = 1] h(4,5,6) fuel
  have r1: "\<exists>session db'. InitiatePayment exEnv exDb0 1 = Some (Inr session, db')
         \<and> s_UserID session = 1
         \<and> s_Status session = PaymentStatusPending
         \<and> s_Amount session = 5000000
         \<and> s_CreatedAt session = clock exEnv 0
         \<and> s_ExpiresAt session = s_CreatedAt session + 15 * Minute
         \<and> s_CompletedAt session = None
         \<and> payment_sessions db' = payment_sessions exDb0 @ [session]
         \<and> payments db' = payments exDb0
         \<and> FindOne (\<lambda>u. u_ID u = 1) (users db')
             = Some (exUser\<lparr>u_PaymentCode := Some (s_PaymentCode session),
                            u_UpdatedAt := clock exEnv 0\<rparr>)"
    by blast
  from C8_InitiatePayment_outcomes [OF h(1), where db = exDb0 and userID = 99] nf
  have r2: "\<exists>db'. InitiatePayment exEnv exDb0 99 = Some (Inl UserNotFound, db')"
    by blast
  from h r1 nf r2 show ?thesis by (intro conjI)
qed

subsection \<open>C9: the letter case of the content\<close>



subsection \<open>C10: the error branches of InitiatePayment write nothing\<close>

text \<open>
  Claim C10. Whenever InitiatePayment returns UserNotFound, UserBanned or
  AlreadyOwned, the store is as it was: no session has been inserted and no user
  document has been changed.
\<close>

theorem C10_InitiatePayment_errors_atomic:
  assumes "InitiatePayment e db userID = Some (Inl err, db')"
    and "err \<in> {UserNotFound, UserBanned, AlreadyOwned}"
  shows "db' = db"
  using assms uniquePaymentCode_error [of "fault_at e" 1 "rand_reads e" "payment_sessions db"]
  by (auto simp: InitiatePayment_def Let_def split: if_splits option.splits sum.splits prod.splits)

text \<open>
  A creation request of the banned user.
\<close>

theorem C10_witness:
  "InitiatePayment exEnv exBannedDb 1
     = Some (Inl UserBanned, snd (the (InitiatePayment exEnv exBannedDb 1)))
   \<and> UserBanned \<in> {UserNotFound, UserBanned, AlreadyOwned}
   \<and> snd (the (InitiatePayment exEnv exBannedDb 1)) = exBannedDb"
proof -
  have h: "InitiatePayment exEnv exBannedDb 1
     = Some (Inl UserBanned, snd (the (InitiatePayment exEnv exBannedDb 1)))"
    "UserBanned \<in> {UserNotFound, UserBanned, AlreadyOwned}"
    by (simp_all add: InitiatePayment_def FindOne_def ex_defs)
  from C10_InitiatePayment_errors_atomic [OF h] h show ?thesis by (intro conjI)
qed

end
